theory Spec2Isabelle
  imports Main "HOL-Library.Sublist"
begin

section \<open>Tabular data\<close>

text \<open>
  The dashboard script \<^verbatim>\<open>app.py\<close> reads two tables with \<^verbatim>\<open>pd.read_sql\<close>, joins
  them with \<^verbatim>\<open>pd.merge\<close>, fills the holes of the join and filters the result by three
  select boxes. A cell of a table is text, a number or null (\<^verbatim>\<open>None\<close>/\<^verbatim>\<open>NaN\<close>);
  numbers are kept as integers, no property below looks at a fractional part.
\<close>

datatype val = Null | Str string | Num int

text \<open>
  A \<^verbatim>\<open>DataFrame\<close>: the column labels in order, and the rows in order, each row holding
  one cell per column.
\<close>

record dataframe =
  columns :: "string list"
  rows :: "val list list"

text \<open>\<^verbatim>\<open>pd.DataFrame()\<close>: no column and no row.\<close>

definition empty_frame :: dataframe where
  "empty_frame = \<lparr>columns = [], rows = []\<rparr>"

text \<open>\<^verbatim>\<open>df.empty\<close> holds when one of the two axes has length zero.\<close>

definition df_empty :: "dataframe \<Rightarrow> bool" where
  "df_empty d \<longleftrightarrow> columns d = [] \<or> rows d = []"

text \<open>
  What a result set of \<^verbatim>\<open>SELECT * FROM "t"\<close> satisfies: the labels are pairwise
  different and every row has one cell per label.
\<close>

definition wf_df :: "dataframe \<Rightarrow> bool" where
  "wf_df d \<longleftrightarrow> distinct (columns d) \<and> list_all (\<lambda>r. length r = length (columns d)) (rows d)"

text \<open>The cell of row \<open>r\<close> under label \<open>c\<close>, when the labels of the frame are \<open>cs\<close>.\<close>

definition cell :: "string list \<Rightarrow> val list \<Rightarrow> string \<Rightarrow> val" where
  "cell cs r c = (case map_of (zip cs r) c of Some v \<Rightarrow> v | None \<Rightarrow> Null)"

text \<open>Exceptions are values. The ones that matter carry what their text is made of.\<close>

datatype py_error =
    KeyError "string list"      \<comment> \<open>labels that were looked up and are not there\<close>
  | OperationalError string     \<comment> \<open>\<^verbatim>\<open>psycopg2.connect\<close> failed\<close>
  | DatabaseError string        \<comment> \<open>\<^verbatim>\<open>pd.read_sql\<close> failed\<close>
  | ValueError string           \<comment> \<open>\<^verbatim>\<open>pd.merge\<close> refused the dtypes of the keys\<close>
  | OtherError string           \<comment> \<open>any other subclass of \<^verbatim>\<open>Exception\<close>\<close>

definition bind_err :: "py_error + 'a \<Rightarrow> ('a \<Rightarrow> py_error + 'b) \<Rightarrow> py_error + 'b" where
  "bind_err x f = (case x of Inl e \<Rightarrow> Inl e | Inr v \<Rightarrow> f v)"

subsection \<open>Column dtypes and the comparison of join keys\<close>

text \<open>
  \<^verbatim>\<open>pd.read_sql\<close> gives a column of integers the dtype \<^verbatim>\<open>int64\<close>, a column of
  integers and nulls the dtype \<^verbatim>\<open>float64\<close> (the nulls become \<^verbatim>\<open>NaN\<close>), and a column
  with a text, or with nulls only, the dtype \<^verbatim>\<open>object\<close>. A column of a table is typed:
  it does not hold texts and numbers together.
\<close>

datatype dtype = Int64 | Float64 | Object

fun is_text :: "val \<Rightarrow> bool" where
  "is_text (Str _) = True"
| "is_text _ = False"

fun is_num :: "val \<Rightarrow> bool" where
  "is_num (Num _) = True"
| "is_num _ = False"

definition col_dtype :: "val list \<Rightarrow> dtype" where
  "col_dtype vs =
     (if list_ex is_text vs then Object
      else if list_ex is_num vs then (if Null \<in> set vs then Float64 else Int64)
      else Object)"

definition numeric :: "dtype \<Rightarrow> bool" where
  "numeric dt \<longleftrightarrow> dt = Int64 \<or> dt = Float64"

fun dtype_name :: "dtype \<Rightarrow> string" where
  "dtype_name Int64 = ''int64''"
| "dtype_name Float64 = ''float64''"
| "dtype_name Object = ''object''"

text \<open>
  The integer that the \<^verbatim>\<open>float64\<close> nearest to an integer stands for: 53 significant
  bits, ties to the even significand. Integers up to \<open>2 ^ 53\<close> in size are kept.
\<close>

fun bit_length :: "nat \<Rightarrow> nat" where
  "bit_length n = (if n = 0 then 0 else Suc (bit_length (n div 2)))"

declare bit_length.simps [simp del]

definition f64_nat :: "nat \<Rightarrow> nat" where
  "f64_nat m =
     (if m < 2 ^ 53 then m
      else let e = bit_length m - 53;
               q = m div 2 ^ e;
               r = m mod 2 ^ e;
               half = 2 ^ (e - 1)
           in if half < r \<or> (r = half \<and> odd q) then (q + 1) * 2 ^ e else q * 2 ^ e)"

definition f64 :: "int \<Rightarrow> int" where
  "f64 n = (if n < 0 then - int (f64_nat (nat (- n))) else int (f64_nat (nat n)))"

text \<open>
  \<^verbatim>\<open>pd.merge\<close> checks the dtypes of the two key columns, unless exactly one of them has
  no row: equal dtypes and two numeric dtypes pass, a numeric key against texts or
  against nulls only is refused with a \<^verbatim>\<open>ValueError\<close>.
\<close>

definition keys_compatible :: "val list \<Rightarrow> val list \<Rightarrow> bool" where
  "keys_compatible lk rk \<longleftrightarrow>
     (lk = [] \<and> rk \<noteq> []) \<or> (lk \<noteq> [] \<and> rk = []) \<or>
     col_dtype lk = col_dtype rk \<or> (numeric (col_dtype lk) \<and> numeric (col_dtype rk))"

text \<open>
  Two numeric key columns of different dtypes are both taken to \<^verbatim>\<open>float64\<close> before
  the keys are compared; in every other case the keys are compared as they are. Null
  keys match each other, as pandas documents.
\<close>

definition key_cast :: "dtype \<Rightarrow> dtype \<Rightarrow> val \<Rightarrow> val" where
  "key_cast dl dr v =
     (if numeric dl \<and> numeric dr \<and> (dl = Float64 \<or> dr = Float64)
      then (case v of Num n \<Rightarrow> Num (f64 n) | _ \<Rightarrow> v)
      else v)"

definition column_values :: "dataframe \<Rightarrow> string \<Rightarrow> val list" where
  "column_values d c = map (\<lambda>r. cell (columns d) r c) (rows d)"

subsection \<open>The pandas operations the script calls\<close>

text \<open>
  \<^verbatim>\<open>df[labels]\<close> with a list of labels: a \<^verbatim>\<open>KeyError\<close> naming the labels that are
  missing, else the frame of these columns in the order asked for.
\<close>

definition select_cols :: "dataframe \<Rightarrow> string list \<Rightarrow> py_error + dataframe" where
  "select_cols d cs =
     (let missing = filter (\<lambda>c. c \<notin> set (columns d)) cs
      in if missing \<noteq> [] then Inl (KeyError missing)
         else Inr \<lparr>columns = cs, rows = map (\<lambda>r. map (cell (columns d) r) cs) (rows d)\<rparr>)"

text \<open>\<^verbatim>\<open>df.rename(columns=m)\<close>: labels that are keys of \<open>m\<close> are replaced.\<close>

definition rename_cols :: "dataframe \<Rightarrow> (string \<times> string) list \<Rightarrow> dataframe" where
  "rename_cols d m =
     d\<lparr>columns := map (\<lambda>c. case map_of m c of Some c' \<Rightarrow> c' | None \<Rightarrow> c) (columns d)\<rparr>"

text \<open>
  \<^verbatim>\<open>pd.merge(left, right, on=key, how='left')\<close>. A \<^verbatim>\<open>KeyError\<close> when a side has no
  column \<open>key\<close>, then a \<^verbatim>\<open>ValueError\<close> when the dtypes of the two key columns are
  refused. A label other than the key that both sides carry gets the suffixes
  \<^verbatim>\<open>_x\<close> and \<^verbatim>\<open>_y\<close>. The rows follow the order of the left frame; a left row is
  paired with every right row of the same key, in the order of the right frame, and
  with nulls when there is none. The key column of the result is the one of the left
  frame.
\<close>

definition drop_key :: "string list \<Rightarrow> string \<Rightarrow> 'a list \<Rightarrow> 'a list" where
  "drop_key cs key xs = map snd (filter (\<lambda>(c, x). c \<noteq> key) (zip cs xs))"

definition join_row ::
  "dataframe \<Rightarrow> string \<Rightarrow> string list \<Rightarrow> dtype \<Rightarrow> dtype \<Rightarrow> val list \<Rightarrow> val list list" where
  "join_row right key lcs dl dr lr =
     (let k = key_cast dl dr (cell lcs lr key);
          matches = filter (\<lambda>rr. key_cast dl dr (cell (columns right) rr key) = k) (rows right);
          other = filter (\<lambda>c. c \<noteq> key) (columns right)
      in if matches = [] then [lr @ replicate (length other) Null]
         else map (\<lambda>rr. lr @ drop_key (columns right) key rr) matches)"

definition pd_merge_left :: "dataframe \<Rightarrow> dataframe \<Rightarrow> string \<Rightarrow> py_error + dataframe" where
  "pd_merge_left left right key =
     (if key \<in> set (columns left) \<and> key \<in> set (columns right) then
        let lk = column_values left key;
            rk = column_values right key
        in if keys_compatible lk rk then
             let other = filter (\<lambda>c. c \<noteq> key) (columns right);
                 clash = (\<lambda>c. c \<in> set (columns left) \<and> c \<in> set other)
             in Inr \<lparr>columns = map (\<lambda>c. if clash c then c @ ''_x'' else c) (columns left)
                               @ map (\<lambda>c. if clash c then c @ ''_y'' else c) other,
                     rows = concat (map (join_row right key (columns left) (col_dtype lk) (col_dtype rk))
                                        (rows left))\<rparr>
           else Inl (ValueError (''You are trying to merge on '' @ dtype_name (col_dtype lk) @ '' and ''
                                 @ dtype_name (col_dtype rk) @ '' columns for key '' @ [CHR 0x27] @ key
                                 @ [CHR 0x27] @ ''. If you wish to proceed you should use pd.concat''))
      else Inl (KeyError [key]))"

text \<open>
  \<^verbatim>\<open>df[c] = df[c].fillna(v)\<close>: reading the column raises \<^verbatim>\<open>KeyError\<close> when the label
  is missing; otherwise every null cell of that column becomes \<open>v\<close>.
\<close>

definition fillna_col :: "dataframe \<Rightarrow> string \<Rightarrow> val \<Rightarrow> py_error + dataframe" where
  "fillna_col d c v =
     (if c \<in> set (columns d)
      then Inr (d\<lparr>rows := map (\<lambda>r. map2 (\<lambda>k x. if k = c \<and> x = Null then v else x) (columns d) r)
                                 (rows d)\<rparr>)
      else Inl (KeyError [c]))"

section \<open>Join and enrich (lines 94 to 110)\<close>

definition agent_cols_to_merge :: "string list" where
  "agent_cols_to_merge = [''id'', ''companyName'', ''email'', ''phoneNumber'']"

definition agent_renaming :: "(string \<times> string) list" where
  "agent_renaming =
     [(''id'', ''agentId''), (''companyName'', ''agent_companyName''),
      (''email'', ''agent_email''), (''phoneNumber'', ''agent_phoneNumber'')]"

definition merge_enrich :: "dataframe \<Rightarrow> dataframe \<Rightarrow> py_error + dataframe" where
  "merge_enrich property_df agent_df =
     bind_err (select_cols agent_df agent_cols_to_merge) (\<lambda>selected.
     let agent_df_selected = rename_cols selected agent_renaming in
     bind_err (pd_merge_left property_df agent_df_selected ''agentId'') (\<lambda>m0.
     bind_err (fillna_col m0 ''agent_companyName'' (Str ''No Agent Assigned'')) (\<lambda>m1.
     bind_err (fillna_col m1 ''agent_email'' (Str ''N/A'')) (\<lambda>m2.
     fillna_col m2 ''agent_phoneNumber'' (Str ''N/A'')))))"


section \<open>Filter options, selections and filters (lines 119 to 137)\<close>

text \<open>
  \<^verbatim>\<open>series.unique()\<close>: the values in the order of their first appearance, each once.
\<close>

definition unique :: "val list \<Rightarrow> val list" where
  "unique xs = rev (remdups (rev xs))"

text \<open>
  \<^verbatim>\<open>['All'] + list(merged_df[c].unique()) if c in merged_df.columns else ['All']\<close>
\<close>

definition filter_options :: "dataframe \<Rightarrow> string \<Rightarrow> val list" where
  "filter_options d c =
     (if c \<in> set (columns d) then Str ''All'' # unique (column_values d c) else [Str ''All''])"

text \<open>
  \<^verbatim>\<open>st.sidebar.selectbox(label, options)\<close> returns one of the options: the one the user
  picked, by its position, and the first one when nothing valid is picked; \<^verbatim>\<open>None\<close> when
  there is no option.
\<close>

definition selectbox :: "val list \<Rightarrow> nat \<Rightarrow> val" where
  "selectbox options i =
     (if options = [] then Null else options ! (if i < length options then i else 0))"

text \<open>
  The elementwise \<^verbatim>\<open>series == selected\<close> of pandas: equal values, and a null cell or a
  null selection equal to nothing.
\<close>

definition py_eq :: "val \<Rightarrow> val \<Rightarrow> bool" where
  "py_eq x s \<longleftrightarrow> x \<noteq> Null \<and> s \<noteq> Null \<and> x = s"

text \<open>\<^verbatim>\<open>df[df[c] == s]\<close>: \<^verbatim>\<open>KeyError\<close> without the column, else the rows that pass.\<close>

definition filter_eq :: "dataframe \<Rightarrow> string \<Rightarrow> val \<Rightarrow> py_error + dataframe" where
  "filter_eq d c s =
     (if c \<in> set (columns d)
      then Inr (d\<lparr>rows := filter (\<lambda>r. py_eq (cell (columns d) r c) s) (rows d)\<rparr>)
      else Inl (KeyError [c]))"

definition apply_filters :: "dataframe \<Rightarrow> val \<Rightarrow> val \<Rightarrow> val \<Rightarrow> py_error + dataframe" where
  "apply_filters merged_df selected_property_type selected_city selected_agent_company =
     bind_err (if selected_property_type \<noteq> Str ''All''
               then filter_eq merged_df ''propertyType'' selected_property_type
               else Inr merged_df) (\<lambda>f1.
     bind_err (if selected_city \<noteq> Str ''All''
               then filter_eq f1 ''city'' selected_city
               else Inr f1) (\<lambda>f2.
     if selected_agent_company \<noteq> Str ''All''
     then filter_eq f2 ''agent_companyName'' selected_agent_company
     else Inr f2))"

text \<open>What the user picked in the three select boxes.\<close>

record picks =
  pick_property_type :: nat
  pick_city :: nat
  pick_agent_company :: nat

section \<open>What the page shows and what the database sees\<close>

text \<open>
  Python strings hold code points, \<^typ>\<open>string\<close> holds bytes: the pictograms of the
  messages are written as their UTF-8 bytes.
\<close>

definition cross_mark :: string where
  "cross_mark = [CHR 0xE2, CHR 0x9D, CHR 0x8C]"

definition warning_sign :: string where
  "warning_sign = [CHR 0xE2, CHR 0x9A, CHR 0xA0, CHR 0xEF, CHR 0xB8, CHR 0x8F]"

definition check_mark :: string where
  "check_mark = [CHR 0xE2, CHR 0x9C, CHR 0x85]"

definition light_bulb :: string where
  "light_bulb = [CHR 0xF0, CHR 0x9F, CHR 0x92, CHR 0xA1]"

text \<open>Parameters of \<^verbatim>\<open>psycopg2.connect\<close>.\<close>

record conn_params =
  host :: "string option"
  port :: string
  database :: "string option"
  user :: "string option"
  password :: "string option"
  sslmode :: string
  connect_timeout :: nat

datatype event =
    St_write string
  | St_error string
  | St_warning string
  | St_info string
  | St_success string
  | St_header string
  | St_subheader string
  | St_dataframe dataframe
  | St_selectbox string "val list"
  | St_tabs "string list"
  | St_chart string                  \<comment> \<open>what the charting library drew\<close>
  | Db_connect conn_params           \<comment> \<open>\<^verbatim>\<open>psycopg2.connect\<close> was called\<close>
  | Db_read_sql string               \<comment> \<open>\<^verbatim>\<open>pd.read_sql\<close> was called with this query\<close>
  | Db_close                         \<comment> \<open>\<^verbatim>\<open>conn.close()\<close> was called\<close>

text \<open>
  How a piece of the script ends: it runs to its end, \<^verbatim>\<open>st.stop()\<close> ends the run
  (its exception is not a subclass of \<^verbatim>\<open>Exception\<close>), or an exception is on its way up.
\<close>

datatype flow = Done | Stop | Raised py_error

text \<open>Decimal numerals, as an f-string writes an integer.\<close>

fun str_nat :: "nat \<Rightarrow> string" where
  "str_nat n =
     (if n < 10 then [''0123456789'' ! n] else str_nat (n div 10) @ [''0123456789'' ! (n mod 10)])"

declare str_nat.simps [simp del]

definition str_int :: "int \<Rightarrow> string" where
  "str_int i = (if i < 0 then ''-'' @ str_nat (nat (- i)) else str_nat (nat i))"

text \<open>
  \<^verbatim>\<open>str(e)\<close>. The database errors carry their text; a \<^verbatim>\<open>KeyError\<close> of pandas is
  rendered by its labels (the wording around them changes with the version of pandas).
\<close>

fun join_labels :: "string list \<Rightarrow> string" where
  "join_labels [] = []"
| "join_labels [c] = [CHR 0x27] @ c @ [CHR 0x27]"
| "join_labels (c # cs) = [CHR 0x27] @ c @ [CHR 0x27] @ '', '' @ join_labels cs"

fun str_error :: "py_error \<Rightarrow> string" where
  "str_error (KeyError ls) = join_labels ls"
| "str_error (OperationalError s) = s"
| "str_error (DatabaseError s) = s"
| "str_error (ValueError s) = s"
| "str_error (OtherError s) = s"

section \<open>Table fetcher (lines 52 to 73)\<close>

text \<open>
  The database is outside the script: it answers a connection attempt (\<open>None\<close>: the
  connection is open) and a query.
\<close>

record db =
  db_connect :: "conn_params \<Rightarrow> py_error option"
  db_read_sql :: "string \<Rightarrow> py_error + dataframe"

text \<open>
  \<^verbatim>\<open>f'SELECT * FROM "{table_name}" LIMIT {limit}'\<close> (the double quote is \<open>CHR 0x22\<close>).
\<close>

definition select_query :: "string \<Rightarrow> int \<Rightarrow> string" where
  "select_query table_name limit =
     ''SELECT * FROM '' @ [CHR 0x22] @ table_name @ [CHR 0x22] @ '' LIMIT '' @ str_int limit"

text \<open>
  The body of the \<^verbatim>\<open>try\<close>: what was called, whether \<^verbatim>\<open>conn\<close> was bound, and the
  frame returned or the exception raised.
\<close>

definition fetch_try :: "conn_params \<Rightarrow> db \<Rightarrow> string \<Rightarrow> int \<Rightarrow> event list \<times> bool \<times> (py_error + dataframe)" where
  "fetch_try params d table_name limit =
     (case db_connect d params of
        Some e \<Rightarrow> ([Db_connect params], False, Inl e)
      | None \<Rightarrow>
          let q = select_query table_name limit
          in ([Db_connect params, Db_read_sql q], True, db_read_sql d q))"

text \<open>The \<^verbatim>\<open>except\<close> clause, then the \<^verbatim>\<open>finally\<close> clause.\<close>

definition fetch_data :: "conn_params \<Rightarrow> db \<Rightarrow> string \<Rightarrow> int \<Rightarrow> event list \<times> dataframe" where
  "fetch_data params d table_name limit =
     (case fetch_try params d table_name limit of (evs, conn, res) \<Rightarrow>
        let closing = (if conn then [Db_close] else [])
        in case res of
             Inr df \<Rightarrow> (evs @ closing, df)
           | Inl e \<Rightarrow>
               (evs @ [St_error (''Error fetching '' @ table_name @ '': '' @ str_error e)] @ closing,
                empty_frame))"

subsection \<open>The cache of line 51\<close>

text \<open>
  \<^verbatim>\<open>@st.cache_data(ttl=300)\<close> keeps, for the arguments of a call, the frame the body
  returned, the notices the body wrote (they are written again when the entry is used)
  and the time the entry was stored. The key is the pair of table name and limit. The
  clock is a parameter, in seconds; an entry is used while the clock is below its time
  of storage plus the time to live, and the body, which alone reaches the database, runs
  when there is no such entry.
\<close>

type_synonym cache = "string \<times> int \<Rightarrow> (dataframe \<times> string list \<times> nat) option"

definition ttl :: nat where
  "ttl = 300"

definition empty_cache :: cache where
  "empty_cache = (\<lambda>_. None)"

fun error_texts :: "event list \<Rightarrow> string list" where
  "error_texts [] = []"
| "error_texts (St_error s # evs) = s # error_texts evs"
| "error_texts (_ # evs) = error_texts evs"

definition cache_lookup :: "cache \<Rightarrow> nat \<Rightarrow> string \<times> int \<Rightarrow> (dataframe \<times> string list) option" where
  "cache_lookup c now key =
     (case c key of
        None \<Rightarrow> None
      | Some (df, errs, stored) \<Rightarrow> if now < stored + ttl then Some (df, errs) else None)"

definition fetch_data_cached ::
  "conn_params \<Rightarrow> db \<Rightarrow> cache \<Rightarrow> nat \<Rightarrow> string \<Rightarrow> int \<Rightarrow> event list \<times> dataframe \<times> cache" where
  "fetch_data_cached params d c now table_name limit =
     (case cache_lookup c now (table_name, limit) of
        Some (df, errs) \<Rightarrow> (map St_error errs, df, c)
      | None \<Rightarrow>
          (case fetch_data params d table_name limit of (evs, df) \<Rightarrow>
             (evs, df, c((table_name, limit) \<mapsto> (df, error_texts evs, now)))))"

section \<open>The page (lines 75 to 282)\<close>

text \<open>\<^verbatim>\<open>df.head()\<close>: the first five rows.\<close>

definition df_head :: "dataframe \<Rightarrow> dataframe" where
  "df_head d = d\<lparr>rows := take 5 (rows d)\<rparr>"

text \<open>
  Lines 112 to 268, once the merged frame is there. The three chart tabs (lines 145 to
  257) belong to the charting library: \<open>charts\<close> says what they draw from the filtered
  frame and whether they raise.
\<close>

definition show_merged ::
  "dataframe \<Rightarrow> dataframe \<Rightarrow> dataframe \<Rightarrow> picks \<Rightarrow> (dataframe \<Rightarrow> event list \<times> py_error option)
     \<Rightarrow> event list \<times> flow" where
  "show_merged agent_df property_df merged_df ui charts =
     (let property_types = filter_options merged_df ''propertyType'';
          selected_property_type = selectbox property_types (pick_property_type ui);
          cities = filter_options merged_df ''city'';
          selected_city = selectbox cities (pick_city ui);
          agent_companies = filter_options merged_df ''agent_companyName'';
          selected_agent_company = selectbox agent_companies (pick_agent_company ui);
          evs = [St_subheader ''Combined Property and Agent Data'',
                 St_dataframe (df_head merged_df),
                 St_header ''Filters'',
                 St_selectbox ''Select Property Type'' property_types,
                 St_selectbox ''Select City'' cities,
                 St_selectbox ''Select Agent Company'' agent_companies]
      in case apply_filters merged_df selected_property_type selected_city selected_agent_company of
           Inl e \<Rightarrow> (evs, Raised e)
         | Inr filtered_df \<Rightarrow>
             let evs2 = evs @
                   [St_subheader (''Filtered Data ('' @ str_nat (length (rows filtered_df)) @ '' rows)''),
                    St_dataframe filtered_df,
                    St_tabs [''Property Overview'', ''Agent Performance'', ''Location Analysis'',
                             ''Raw Data'']]
             in case charts filtered_df of
                  (drawn, Some e) \<Rightarrow> (evs2 @ drawn, Raised e)
                | (drawn, None) \<Rightarrow>
                    (evs2 @ drawn @
                       [St_header ''Raw Data Tables'',
                        St_subheader ''Agent Data'', St_dataframe agent_df,
                        St_subheader ''Property Data'', St_dataframe property_df,
                        St_subheader ''Merged Data'', St_dataframe merged_df],
                     Done))"

text \<open>The body of the \<^verbatim>\<open>try\<close>, from line 80 on.\<close>

definition page_body ::
  "dataframe \<Rightarrow> dataframe \<Rightarrow> picks \<Rightarrow> (dataframe \<Rightarrow> event list \<times> py_error option)
     \<Rightarrow> event list \<times> flow" where
  "page_body agent_df property_df ui charts =
     (if df_empty agent_df \<and> df_empty property_df
      then ([St_warning (warning_sign @ '' No data returned from either Agent or Property tables.'')],
            Stop)
      else
        let evs =
              (if df_empty agent_df
               then [St_warning (warning_sign @ '' No data returned from Agent table.'')]
               else if df_empty property_df
               then [St_warning (warning_sign @ '' No data returned from Property table.'')]
               else [])
              @ [St_success (check_mark @ '' Connected to database and fetched data.'')]
        in if \<not> df_empty agent_df \<and> \<not> df_empty property_df then
             (case merge_enrich property_df agent_df of
                Inl e \<Rightarrow> (evs, Raised e)
              | Inr merged_df \<Rightarrow>
                  (case show_merged agent_df property_df merged_df ui charts of
                     (evs', fl) \<Rightarrow> (evs @ evs', fl)))
           else if \<not> df_empty agent_df then
             (evs @ [St_subheader ''Agent Data'', St_dataframe agent_df,
                     St_info ''Property data is empty, cannot perform merge or property-related visualizations.''],
              Done)
           else if \<not> df_empty property_df then
             (evs @ [St_subheader ''Property Data'', St_dataframe property_df,
                     St_info ''Agent data is empty, cannot perform merge or agent-related visualizations.''],
              Done)
           else (evs, Done))"

text \<open>\<^verbatim>\<open>"SSL" in str(e)\<close> and the hint of line 282.\<close>

definition ssl_hint :: "py_error \<Rightarrow> event list" where
  "ssl_hint e =
     (if sublist ''SSL'' (str_error e)
      then [St_info (light_bulb @ '' Try setting DB_SSL_MODE=disable in your .env file if the database doesn''
                     @ [CHR 0x27] @ ''t support SSL'')]
      else [])"

text \<open>The \<^verbatim>\<open>except Exception\<close> clause of lines 279 to 282 around the body.\<close>

definition run_page ::
  "dataframe \<Rightarrow> dataframe \<Rightarrow> picks \<Rightarrow> (dataframe \<Rightarrow> event list \<times> py_error option)
     \<Rightarrow> event list \<times> flow" where
  "run_page agent_df property_df ui charts =
     (case page_body agent_df property_df ui charts of
        (evs, Raised e) \<Rightarrow>
          (evs @ [St_error (cross_mark @ '' An unexpected error occurred: '' @ str_error e)] @ ssl_hint e,
           Done)
      | (evs, Done) \<Rightarrow> (evs, Done)
      | (evs, Stop) \<Rightarrow> (evs, Stop))"

section \<open>Configuration and the whole script (lines 23 to 49, 77, 78)\<close>

text \<open>
  The environment is what \<^verbatim>\<open>os.getenv\<close> sees once lines 10 to 17 have loaded the
  \<^verbatim>\<open>.env\<close> file; the page title of lines 19 and 20 plays no part below.
\<close>

type_synonym environ = "string \<Rightarrow> string option"

text \<open>\<^verbatim>\<open>os.getenv(k, default)\<close>\<close>

definition getenv_default :: "environ \<Rightarrow> string \<Rightarrow> string \<Rightarrow> string" where
  "getenv_default env k d = (case env k of Some v \<Rightarrow> v | None \<Rightarrow> d)"

text \<open>The truth value \<^verbatim>\<open>all\<close> looks at: \<^verbatim>\<open>None\<close> and the empty string are false.\<close>

definition truthy :: "string option \<Rightarrow> bool" where
  "truthy v = (case v of None \<Rightarrow> False | Some s \<Rightarrow> s \<noteq> [])"

text \<open>How an f-string writes a value that may be \<^verbatim>\<open>None\<close>.\<close>

definition fmt :: "string option \<Rightarrow> string" where
  "fmt v = (case v of None \<Rightarrow> ''None'' | Some s \<Rightarrow> s)"

text \<open>The block \<^verbatim>\<open>Connection Info\<close> of the sidebar (lines 31 to 36).\<close>

definition connection_info :: "environ \<Rightarrow> event list" where
  "connection_info env =
     [St_write (''Host: '' @ fmt (env ''DB_HOST'')),
      St_write (''Port: '' @ getenv_default env ''DB_PORT'' ''5432''),
      St_write (''Database: '' @ fmt (env ''DB_NAME'')),
      St_write (''User: '' @ fmt (env ''DB_USER'')),
      St_write (''SSL Mode: '' @ getenv_default env ''DB_SSL_MODE'' ''require'')]"

text \<open>
  One run of the script on the cache of the process, the readings of the clock at the
  two calls of \<^verbatim>\<open>fetch_data\<close>, an environment, a database, the user's picks and the
  charting library. It gives the page, the way the run ends, and the cache it leaves.
\<close>

definition run_script ::
  "cache \<Rightarrow> nat \<Rightarrow> nat \<Rightarrow> environ \<Rightarrow> db \<Rightarrow> picks \<Rightarrow> (dataframe \<Rightarrow> event list \<times> py_error option)
     \<Rightarrow> (event list \<times> flow) \<times> cache" where
  "run_script c t_agent t_property env d ui charts =
     (let db_host = env ''DB_HOST'';
          db_port = getenv_default env ''DB_PORT'' ''5432'';
          db_name = env ''DB_NAME'';
          db_user = env ''DB_USER'';
          db_password = env ''DB_PASSWORD'';
          db_ssl_mode = getenv_default env ''DB_SSL_MODE'' ''require'';
          evs0 = connection_info env
      in if \<not> list_all truthy [db_host, db_name, db_user, db_password]
         then ((evs0 @ [St_error (cross_mark @ '' Missing database credentials! Please check your .env file.''),
                        St_info ''Required variables: DB_HOST, DB_NAME, DB_USER, DB_PASSWORD''],
                Stop), c)
         else
           let db_table_agent = env ''DB_TABLE_AGENT'';
               db_table_property = env ''DB_TABLE_PROPERTY''
           in if \<not> list_all truthy [db_table_agent, db_table_property]
              then ((evs0 @ [St_error (cross_mark @ '' Missing table names! Please set DB_TABLE_AGENT and DB_TABLE_PROPERTY in your .env file.'')],
                     Stop), c)
              else
                let params = \<lparr>host = db_host, port = db_port, database = db_name, user = db_user,
                              password = db_password, sslmode = db_ssl_mode, connect_timeout = 10\<rparr>
                in case fetch_data_cached params d c t_agent (fmt db_table_agent) 1000 of
                     (evs1, agent_df, c1) \<Rightarrow>
                   case fetch_data_cached params d c1 t_property (fmt db_table_property) 1000 of
                     (evs2, property_df, c2) \<Rightarrow>
                   case run_page agent_df property_df ui charts of (evs3, fl) \<Rightarrow>
                     ((evs0 @ evs1 @ evs2 @ evs3, fl), c2))"

text \<open>The first run of a process: the cache is empty.\<close>

definition script ::
  "nat \<Rightarrow> nat \<Rightarrow> environ \<Rightarrow> db \<Rightarrow> picks \<Rightarrow> (dataframe \<Rightarrow> event list \<times> py_error option)
     \<Rightarrow> event list \<times> flow" where
  "script t_agent t_property env d ui charts =
     fst (run_script empty_cache t_agent t_property env d ui charts)"

text \<open>Events that reach the database.\<close>

fun is_db_event :: "event \<Rightarrow> bool" where
  "is_db_event (Db_connect _) = True"
| "is_db_event (Db_read_sql _) = True"
| "is_db_event Db_close = True"
| "is_db_event _ = False"


text \<open>The text of a notice, empty for the other events.\<close>

fun notice_text :: "event \<Rightarrow> string" where
  "notice_text (St_error s) = s"
| "notice_text (St_warning s) = s"
| "notice_text (St_info s) = s"
| "notice_text _ = []"


section \<open>Notions used to state the properties\<close>

text \<open>The three columns the join adds.\<close>

definition agent_labels :: "string list" where
  "agent_labels = [''agent_companyName'', ''agent_email'', ''agent_phoneNumber'']"

text \<open>
  The agent rows that the join pairs with the foreign key \<open>k\<close>, in table order: those
  whose identifier is \<open>k\<close> in the comparison of the join.
\<close>

definition matching_agents :: "dataframe \<Rightarrow> dataframe \<Rightarrow> val \<Rightarrow> val list list" where
  "matching_agents property_df agent_df k =
     (let dl = col_dtype (column_values property_df ''agentId'');
          dr = col_dtype (column_values agent_df ''id'')
      in filter (\<lambda>ar. key_cast dl dr (cell (columns agent_df) ar ''id'') = key_cast dl dr k)
                (rows agent_df))"

text \<open>The agent rows whose identifier is the value \<open>k\<close>.\<close>

definition agents_with_id :: "dataframe \<Rightarrow> val \<Rightarrow> val list list" where
  "agents_with_id agent_df k = filter (\<lambda>ar. cell (columns agent_df) ar ''id'' = k) (rows agent_df)"

text \<open>A key that \<^verbatim>\<open>float64\<close> holds exactly.\<close>

definition exact_key :: "val \<Rightarrow> bool" where
  "exact_key v = (case v of Num n \<Rightarrow> \<bar>n\<bar> \<le> 2 ^ 53 | _ \<Rightarrow> True)"

text \<open>
  What makes the join of lines 96 to 110 go through: the four agent columns and the key
  of the property table are there, no property column bears one of the three new labels,
  and the dtypes of the two key columns are accepted.
\<close>

definition joinable :: "dataframe \<Rightarrow> dataframe \<Rightarrow> bool" where
  "joinable property_df agent_df \<longleftrightarrow>
     list_all (\<lambda>c. c \<in> set (columns agent_df)) agent_cols_to_merge \<and>
     ''agentId'' \<in> set (columns property_df) \<and>
     list_all (\<lambda>c. c \<notin> set (columns property_df)) agent_labels \<and>
     keys_compatible (column_values property_df ''agentId'') (column_values agent_df ''id'')"

text \<open>\<open>agent_df_selected\<close> of line 96, when the four columns are there.\<close>

definition agent_df_selected :: "dataframe \<Rightarrow> dataframe" where
  "agent_df_selected a =
     \<lparr>columns = [''agentId'', ''agent_companyName'', ''agent_email'', ''agent_phoneNumber''],
      rows = map (\<lambda>r. map (cell (columns a) r) agent_cols_to_merge) (rows a)\<rparr>"

definition fill :: "val \<Rightarrow> val \<Rightarrow> val" where
  "fill v x = (if x = Null then v else x)"

text \<open>The three \<^verbatim>\<open>fillna\<close> of lines 108 to 110 on one row.\<close>

definition fill3 :: "string list \<Rightarrow> val list \<Rightarrow> val list" where
  "fill3 cs r =
     map2 (\<lambda>k x. if k = ''agent_phoneNumber'' \<and> x = Null then Str ''N/A'' else x) cs
       (map2 (\<lambda>k x. if k = ''agent_email'' \<and> x = Null then Str ''N/A'' else x) cs
         (map2 (\<lambda>k x. if k = ''agent_companyName'' \<and> x = Null then Str ''No Agent Assigned'' else x) cs r))"

definition agent_attrs :: "string list \<Rightarrow> val list \<Rightarrow> val list" where
  "agent_attrs ca ar =
     [fill (Str ''No Agent Assigned'') (cell ca ar ''companyName''),
      fill (Str ''N/A'') (cell ca ar ''email''),
      fill (Str ''N/A'') (cell ca ar ''phoneNumber'')]"

text \<open>The enriched rows that one property row gives.\<close>

definition enrich_row :: "dataframe \<Rightarrow> dataframe \<Rightarrow> val list \<Rightarrow> val list list" where
  "enrich_row property_df agent_df lr =
     (let ms = matching_agents property_df agent_df (cell (columns property_df) lr ''agentId'')
      in if ms = [] then [lr @ [Str ''No Agent Assigned'', Str ''N/A'', Str ''N/A'']]
         else map (\<lambda>ar. lr @ agent_attrs (columns agent_df) ar) ms)"


text \<open>The rows the three steps of lines 132 to 137 keep, with the comparison of pandas.\<close>

definition kept :: "string list \<Rightarrow> val \<Rightarrow> val \<Rightarrow> val \<Rightarrow> val list \<Rightarrow> bool" where
  "kept cs st sc sa r \<longleftrightarrow>
     (st = Str ''All'' \<or> py_eq (cell cs r ''propertyType'') st) \<and>
     (sc = Str ''All'' \<or> py_eq (cell cs r ''city'') sc) \<and>
     (sa = Str ''All'' \<or> py_eq (cell cs r ''agent_companyName'') sa)"

text \<open>Some notice on the page carries the name \<open>v\<close>.\<close>

definition names_variable :: "string \<Rightarrow> event list \<Rightarrow> bool" where
  "names_variable v evs = list_ex (\<lambda>e. sublist v (notice_text e)) evs"

definition credential_variables :: "string list" where
  "credential_variables = [''DB_HOST'', ''DB_NAME'', ''DB_USER'', ''DB_PASSWORD'']"

definition table_variables :: "string list" where
  "table_variables = [''DB_TABLE_AGENT'', ''DB_TABLE_PROPERTY'']"

text \<open>
  The labels the join looks for in vain: the missing ones among the four agent columns,
  which are looked up first, else the key of the property table.
\<close>

definition missing_columns :: "dataframe \<Rightarrow> dataframe \<Rightarrow> string list" where
  "missing_columns property_df agent_df =
     (let ms = filter (\<lambda>c. c \<notin> set (columns agent_df)) agent_cols_to_merge
      in if ms \<noteq> [] then ms else [''agentId''])"

subsection \<open>Sample data\<close>

definition ex_property :: dataframe where
  "ex_property =
     \<lparr>columns = [''id'', ''agentId'', ''propertyType'', ''city'', ''price''],
      rows = [[Num 1, Num 10, Str ''House'', Str ''Metropolis'', Num 200000],
              [Num 2, Num 99, Str ''Condo'', Str ''Gotham'', Num 150000]]\<rparr>"

definition ex_agents :: dataframe where
  "ex_agents =
     \<lparr>columns = [''id'', ''companyName'', ''email'', ''phoneNumber''],
      rows = [[Num 10, Str ''Acme Realty'', Str ''a@x.com'', Str ''555'']]\<rparr>"

definition ex_merged :: dataframe where
  "ex_merged =
     \<lparr>columns = [''id'', ''agentId'', ''propertyType'', ''city'', ''price'',
                 ''agent_companyName'', ''agent_email'', ''agent_phoneNumber''],
      rows = [[Num 1, Num 10, Str ''House'', Str ''Metropolis'', Num 200000,
               Str ''Acme Realty'', Str ''a@x.com'', Str ''555''],
              [Num 2, Num 99, Str ''Condo'', Str ''Gotham'', Num 150000,
               Str ''No Agent Assigned'', Str ''N/A'', Str ''N/A'']]\<rparr>"

text \<open>An agent table in which two rows carry the identifier 10.\<close>

definition ex_agents_twice :: dataframe where
  "ex_agents_twice =
     \<lparr>columns = [''id'', ''companyName'', ''email'', ''phoneNumber''],
      rows = [[Num 10, Str ''Acme Realty'', Str ''a@x.com'', Str ''555''],
              [Num 10, Str ''Bolt Homes'', Str ''b@x.com'', Str ''777'']]\<rparr>"

text \<open>A merged frame with a property whose type is the text \<^verbatim>\<open>All\<close>.\<close>

definition ex_typed_all :: dataframe where
  "ex_typed_all =
     \<lparr>columns = [''id'', ''propertyType'', ''city'', ''agent_companyName''],
      rows = [[Num 1, Str ''All'', Str ''Gotham'', Str ''Acme Realty''],
              [Num 2, Str ''House'', Str ''Gotham'', Str ''Acme Realty'']]\<rparr>"

definition ex_property_one :: dataframe where
  "ex_property_one =
     \<lparr>columns = [''id'', ''agentId''], rows = [[Num 1, Num 10]]\<rparr>"

definition ex_params :: conn_params where
  "ex_params =
     \<lparr>host = Some ''db.example.org'', port = ''5432'', database = Some ''estate'',
      user = Some ''reader'', password = Some ''secret'', sslmode = ''require'',
      connect_timeout = 10\<rparr>"

text \<open>A database that refuses the connection, one that has no such table, one that answers.\<close>

definition ex_db_down :: db where
  "ex_db_down =
     \<lparr>db_connect = (\<lambda>_. Some (OperationalError ''connection refused'')),
      db_read_sql = (\<lambda>_. Inr empty_frame)\<rparr>"

definition ex_db_no_table :: db where
  "ex_db_no_table =
     \<lparr>db_connect = (\<lambda>_. None),
      db_read_sql = (\<lambda>_. Inl (DatabaseError ''relation does not exist''))\<rparr>"

definition ex_db_ok :: db where
  "ex_db_ok = \<lparr>db_connect = (\<lambda>_. None), db_read_sql = (\<lambda>_. Inr ex_agents)\<rparr>"

definition ex_picks :: picks where
  "ex_picks = \<lparr>pick_property_type = 0, pick_city = 0, pick_agent_company = 0\<rparr>"

definition ex_charts :: "dataframe \<Rightarrow> event list \<times> py_error option" where
  "ex_charts filtered_df = ([St_chart ''Number of Properties by Type''], None)"

text \<open>An agent table without the column \<^verbatim>\<open>email\<close>.\<close>

definition ex_agents_no_email :: dataframe where
  "ex_agents_no_email =
     \<lparr>columns = [''id'', ''companyName'', ''phoneNumber''],
      rows = [[Num 10, Str ''Acme Realty'', Str ''555'']]\<rparr>"

text \<open>
  A property whose key is \<open>2 ^ 53 + 1\<close>, and agents whose identifiers are \<open>2 ^ 53\<close> and
  null: the identifier column is \<^verbatim>\<open>float64\<close>, the key column \<^verbatim>\<open>int64\<close>.
\<close>

definition ex_property_big :: dataframe where
  "ex_property_big =
     \<lparr>columns = [''id'', ''agentId''], rows = [[Num 1, Num 9007199254740993]]\<rparr>"

definition ex_agents_big :: dataframe where
  "ex_agents_big =
     \<lparr>columns = [''id'', ''companyName'', ''email'', ''phoneNumber''],
      rows = [[Num 9007199254740992, Str ''Acme Realty'', Str ''a@x.com'', Str ''555''],
              [Null, Str ''Bolt Homes'', Str ''b@x.com'', Str ''777'']]\<rparr>"

text \<open>Properties without agent: the key column holds nulls only.\<close>

definition ex_property_unassigned :: dataframe where
  "ex_property_unassigned =
     \<lparr>columns = [''id'', ''agentId''], rows = [[Num 1, Null], [Num 2, Null]]\<rparr>"

text \<open>A property table that already has a column \<^verbatim>\<open>agent_email\<close>.\<close>

definition ex_property_clash :: dataframe where
  "ex_property_clash =
     \<lparr>columns = [''id'', ''agentId'', ''agent_email''], rows = [[Num 1, Num 10, Str ''x@y.org'']]\<rparr>"

text \<open>A merged frame with a property that has no city.\<close>

definition ex_no_city :: dataframe where
  "ex_no_city =
     \<lparr>columns = [''id'', ''propertyType'', ''city'', ''agent_companyName''],
      rows = [[Num 1, Str ''House'', Null, Str ''Acme Realty''],
              [Num 2, Str ''House'', Str ''Gotham'', Str ''Acme Realty'']]\<rparr>"

text \<open>An environment with no variable set, and one with the six required ones.\<close>

definition blank_env :: environ where
  "blank_env = (\<lambda>_. None)"

definition ex_env :: environ where
  "ex_env =
     [''DB_HOST'' \<mapsto> ''db.example.org'', ''DB_NAME'' \<mapsto> ''estate'', ''DB_USER'' \<mapsto> ''reader'',
      ''DB_PASSWORD'' \<mapsto> ''secret'', ''DB_TABLE_AGENT'' \<mapsto> ''Agent'',
      ''DB_TABLE_PROPERTY'' \<mapsto> ''Property'']"

section \<open>Properties of the join\<close>

lemma select_agent_ok:
  assumes "set agent_cols_to_merge \<subseteq> set (columns a)"
  shows "select_cols a agent_cols_to_merge =
           Inr \<lparr>columns = agent_cols_to_merge,
                rows = map (\<lambda>r. map (cell (columns a) r) agent_cols_to_merge) (rows a)\<rparr>"
proof -
  have "filter (\<lambda>c. c \<notin> set (columns a)) agent_cols_to_merge = []"
    using assms by (auto simp: filter_empty_conv)
  then show ?thesis by (simp add: select_cols_def)
qed

lemma select_agent_fail:
  assumes "\<not> set agent_cols_to_merge \<subseteq> set (columns a)"
  shows "select_cols a agent_cols_to_merge =
           Inl (KeyError (filter (\<lambda>c. c \<notin> set (columns a)) agent_cols_to_merge))"
    and "filter (\<lambda>c. c \<notin> set (columns a)) agent_cols_to_merge \<noteq> []"
proof -
  show ne: "filter (\<lambda>c. c \<notin> set (columns a)) agent_cols_to_merge \<noteq> []"
    using assms by (auto simp: filter_empty_conv)
  then show "select_cols a agent_cols_to_merge =
           Inl (KeyError (filter (\<lambda>c. c \<notin> set (columns a)) agent_cols_to_merge))"
    by (simp add: select_cols_def)
qed

lemma rename_selected:
  "rename_cols \<lparr>columns = agent_cols_to_merge,
                rows = map (\<lambda>r. map (cell (columns a) r) agent_cols_to_merge) (rows a)\<rparr> agent_renaming
   = agent_df_selected a"
  by (simp add: rename_cols_def agent_cols_to_merge_def agent_renaming_def agent_df_selected_def)

lemma selected_key_column:
  "column_values (agent_df_selected a) ''agentId'' = column_values a ''id''"
  by (simp add: column_values_def agent_df_selected_def agent_cols_to_merge_def cell_def)

lemma join_row_selected:
  "join_row (agent_df_selected a) ''agentId'' (columns p)
      (col_dtype (column_values p ''agentId'')) (col_dtype (column_values a ''id'')) lr =
     (let ms = matching_agents p a (cell (columns p) lr ''agentId'')
      in if ms = [] then [lr @ [Null, Null, Null]]
         else map (\<lambda>ar. lr @ [cell (columns a) ar ''companyName'', cell (columns a) ar ''email'',
                                cell (columns a) ar ''phoneNumber'']) ms)"
  by (simp add: join_row_def agent_df_selected_def matching_agents_def agent_cols_to_merge_def
       Let_def filter_map o_def cell_def drop_key_def)

lemma merge_selected_columns:
  assumes "''agentId'' \<in> set (columns p)"
    and "keys_compatible (column_values p ''agentId'') (column_values a ''id'')"
  shows "\<exists>m0. pd_merge_left p (agent_df_selected a) ''agentId'' = Inr m0 \<and>
           rows m0 = concat (map (join_row (agent_df_selected a) ''agentId'' (columns p)
                                    (col_dtype (column_values p ''agentId''))
                                    (col_dtype (column_values a ''id''))) (rows p)) \<and>
           columns m0 = map (\<lambda>c. if c \<in> set agent_labels then c @ ''_x'' else c) (columns p)
                        @ map (\<lambda>c. if c \<in> set (columns p) then c @ ''_y'' else c) agent_labels"
proof -
  have k: "''agentId'' \<in> set (columns (agent_df_selected a))"
    by (simp add: agent_df_selected_def)
  have o: "filter (\<lambda>c. c \<noteq> ''agentId'') (columns (agent_df_selected a)) = agent_labels"
    by (simp add: agent_df_selected_def agent_labels_def)
  show ?thesis
    using assms k
    by (simp add: pd_merge_left_def selected_key_column o Let_def cong: map_cong)
qed

lemma merge_selected_refused:
  assumes "''agentId'' \<in> set (columns p)"
    and "\<not> keys_compatible (column_values p ''agentId'') (column_values a ''id'')"
  shows "\<exists>s. pd_merge_left p (agent_df_selected a) ''agentId'' = Inl (ValueError s)"
proof -
  have k: "''agentId'' \<in> set (columns (agent_df_selected a))"
    by (simp add: agent_df_selected_def)
  show ?thesis
    using assms k by (simp add: pd_merge_left_def selected_key_column Let_def)
qed

lemma label_suffix_neq:
  "l \<in> set agent_labels \<Longrightarrow> c \<in> set agent_labels \<Longrightarrow> l \<noteq> c @ ''_x'' \<and> l \<noteq> c @ ''_y''"
  by (auto simp: agent_labels_def)

lemma label_in_merged:
  assumes l: "l \<in> set agent_labels"
    and m: "l \<in> set (map (\<lambda>c. if c \<in> set agent_labels then c @ ''_x'' else c) cp
                   @ map (\<lambda>c. if c \<in> set cp then c @ ''_y'' else c) agent_labels)"
  shows "l \<notin> set cp"
proof
  assume cp: "l \<in> set cp"
  from m consider (left) c where "c \<in> set cp" "l = (if c \<in> set agent_labels then c @ ''_x'' else c)"
    | (right) c where "c \<in> set agent_labels" "l = (if c \<in> set cp then c @ ''_y'' else c)"
    by auto
  then show False
  proof cases
    case left
    then show ?thesis using l label_suffix_neq[OF l, of c] by (cases "c \<in> set agent_labels") auto
  next
    case right
    then show ?thesis using cp label_suffix_neq[OF l, of c] by (cases "c \<in> set cp") auto
  qed
qed

lemma fillna_columns: "fillna_col d c v = Inr d' \<Longrightarrow> columns d' = columns d \<and> c \<in> set (columns d)"
  by (auto simp: fillna_col_def split: if_splits)

lemma joinable_iff:
  "joinable p a \<longleftrightarrow>
     set agent_cols_to_merge \<subseteq> set (columns a) \<and> ''agentId'' \<in> set (columns p) \<and>
     set agent_labels \<inter> set (columns p) = {} \<and>
     keys_compatible (column_values p ''agentId'') (column_values a ''id'')"
  by (auto simp: joinable_def list_all_iff)

text \<open>
  When the join and the three fills go through, the two frames are joinable (a property
  column with one of the three new labels would be renamed by the suffixes, and the fill
  would not find its label).
\<close>

lemma merge_enrich_success:
  assumes "merge_enrich p a = Inr m"
  shows "joinable p a"
proof -
  from assms obtain s where s: "select_cols a agent_cols_to_merge = Inr s"
    by (auto simp: merge_enrich_def bind_err_def split: sum.splits)
  then have sub: "set agent_cols_to_merge \<subseteq> set (columns a)"
    using select_agent_fail(1)[of a] by auto
  have "s = \<lparr>columns = agent_cols_to_merge,
                rows = map (\<lambda>r. map (cell (columns a) r) agent_cols_to_merge) (rows a)\<rparr>"
    using s select_agent_ok[OF sub] by simp
  then have s': "rename_cols s agent_renaming = agent_df_selected a"
    by (simp only: rename_selected)
  from assms s s' obtain m0 m1 m2 where
    m0: "pd_merge_left p (agent_df_selected a) ''agentId'' = Inr m0" and
    m1: "fillna_col m0 ''agent_companyName'' (Str ''No Agent Assigned'') = Inr m1" and
    m2: "fillna_col m1 ''agent_email'' (Str ''N/A'') = Inr m2" and
    m3: "fillna_col m2 ''agent_phoneNumber'' (Str ''N/A'') = Inr m"
    by (auto simp: merge_enrich_def bind_err_def Let_def split: sum.splits)
  have key: "''agentId'' \<in> set (columns p)"
    using m0 by (auto simp: pd_merge_left_def split: if_splits)
  have comp: "keys_compatible (column_values p ''agentId'') (column_values a ''id'')"
    using merge_selected_refused[OF key, of a] m0 by auto
  from merge_selected_columns[OF key comp] m0
  have cols: "columns m0 = map (\<lambda>c. if c \<in> set agent_labels then c @ ''_x'' else c) (columns p)
                        @ map (\<lambda>c. if c \<in> set (columns p) then c @ ''_y'' else c) agent_labels"
    by simp
  have in0: "''agent_companyName'' \<in> set (columns m0)" "''agent_email'' \<in> set (columns m0)"
      "''agent_phoneNumber'' \<in> set (columns m0)"
    using fillna_columns[OF m1] fillna_columns[OF m2] fillna_columns[OF m3] by simp_all
  have "l \<notin> set (columns p)" if "l \<in> set agent_labels" for l
  proof (rule label_in_merged[OF that])
    from that in0 have "l \<in> set (columns m0)" by (auto simp: agent_labels_def)
    then show "l \<in> set (map (\<lambda>c. if c \<in> set agent_labels then c @ ''_x'' else c) (columns p)
                   @ map (\<lambda>c. if c \<in> set (columns p) then c @ ''_y'' else c) agent_labels)"
      by (simp only: cols)
  qed
  then have "set agent_labels \<inter> set (columns p) = {}" by blast
  with sub key comp show ?thesis by (simp add: joinable_iff)
qed

lemma fill_left_id:
  "length lr = length cp \<Longrightarrow> c \<notin> set cp \<Longrightarrow>
   map2 (\<lambda>k x. if k = c \<and> x = Null then v else x) cp lr = lr"
  by (induction lr cp rule: list_induct2) auto

lemma fill_row_append:
  assumes "length lr = length cp" "c \<notin> set cp"
  shows "map2 (\<lambda>k x. if k = c \<and> x = Null then v else x) (cp @ ls) (lr @ xs)
         = lr @ map2 (\<lambda>k x. if k = c \<and> x = Null then v else x) ls xs"
  using assms by (simp add: fill_left_id)

lemma fill3_row:
  assumes len: "length lr = length cp" and nc: "set agent_labels \<inter> set cp = {}"
  shows "fill3 (cp @ agent_labels) (lr @ [x, y, z])
         = lr @ [fill (Str ''No Agent Assigned'') x, fill (Str ''N/A'') y, fill (Str ''N/A'') z]"
proof -
  have n: "''agent_companyName'' \<notin> set cp" "''agent_email'' \<notin> set cp" "''agent_phoneNumber'' \<notin> set cp"
    using nc by (auto simp: agent_labels_def)
  show ?thesis
    unfolding fill3_def
    by (simp add: fill_row_append[OF len n(1)] fill_row_append[OF len n(2)]
          fill_row_append[OF len n(3)] agent_labels_def fill_def)
qed

lemma fill3_join_row:
  assumes len: "length lr = length (columns p)" and nc: "set agent_labels \<inter> set (columns p) = {}"
  shows "map (fill3 (columns p @ agent_labels))
           (join_row (agent_df_selected a) ''agentId'' (columns p)
              (col_dtype (column_values p ''agentId'')) (col_dtype (column_values a ''id'')) lr)
         = enrich_row p a lr"
  by (simp add: join_row_selected enrich_row_def Let_def fill3_row[OF len nc] fill_def
        agent_attrs_def)

lemma three_fills:
  assumes "set agent_labels \<subseteq> set (columns m0)"
  shows "bind_err (fillna_col m0 ''agent_companyName'' (Str ''No Agent Assigned'')) (\<lambda>m1.
         bind_err (fillna_col m1 ''agent_email'' (Str ''N/A'')) (\<lambda>m2.
         fillna_col m2 ''agent_phoneNumber'' (Str ''N/A'')))
         = Inr (m0\<lparr>rows := map (fill3 (columns m0)) (rows m0)\<rparr>)"
  using assms by (simp add: fillna_col_def bind_err_def agent_labels_def fill3_def o_def)

text \<open>The merged frame of two joinable frames, row by row.\<close>

lemma merge_enrich_explicit:
  assumes wf: "wf_df p" and j: "joinable p a"
  shows "merge_enrich p a =
           Inr \<lparr>columns = columns p @ agent_labels,
                rows = concat (map (enrich_row p a) (rows p))\<rparr>"
proof -
  from j have sub: "set agent_cols_to_merge \<subseteq> set (columns a)"
    and key: "''agentId'' \<in> set (columns p)"
    and nc: "set agent_labels \<inter> set (columns p) = {}"
    and comp: "keys_compatible (column_values p ''agentId'') (column_values a ''id'')"
    by (simp_all add: joinable_iff)
  from merge_selected_columns[OF key comp] obtain m0 where
    m0: "pd_merge_left p (agent_df_selected a) ''agentId'' = Inr m0" and
    r0: "rows m0 = concat (map (join_row (agent_df_selected a) ''agentId'' (columns p)
                                    (col_dtype (column_values p ''agentId''))
                                    (col_dtype (column_values a ''id''))) (rows p))" and
    c0: "columns m0 = map (\<lambda>c. if c \<in> set agent_labels then c @ ''_x'' else c) (columns p)
                        @ map (\<lambda>c. if c \<in> set (columns p) then c @ ''_y'' else c) agent_labels"
    by blast
  have l: "map (\<lambda>c. if c \<in> set agent_labels then c @ ''_x'' else c) (columns p) = columns p"
    using nc by (intro map_idI) auto
  have r: "map (\<lambda>c. if c \<in> set (columns p) then c @ ''_y'' else c) agent_labels = agent_labels"
    using nc by (intro map_idI) auto
  have c0': "columns m0 = columns p @ agent_labels"
    using c0 l r by simp
  have len: "length lr = length (columns p)" if "lr \<in> set (rows p)" for lr
    using wf that by (auto simp: wf_df_def list_all_iff)
  have rows: "map (fill3 (columns m0)) (rows m0) = concat (map (enrich_row p a) (rows p))"
    unfolding r0 c0' map_concat map_map o_def
    by (rule arg_cong[where f = concat], rule map_cong[OF refl])
       (simp add: fill3_join_row[OF len nc])
  have "merge_enrich p a = Inr (m0\<lparr>rows := map (fill3 (columns m0)) (rows m0)\<rparr>)"
    unfolding merge_enrich_def
    by (simp add: select_agent_ok[OF sub] rename_selected bind_err_def[of "Inr _"] m0
          three_fills c0')
  also have "m0\<lparr>rows := map (fill3 (columns m0)) (rows m0)\<rparr> =
          \<lparr>columns = columns p @ agent_labels,
           rows = concat (map (enrich_row p a) (rows p))\<rparr>"
    using rows c0' by simp
  finally show ?thesis .
qed

lemma merged_frame:
  assumes "wf_df p" and "merge_enrich p a = Inr m"
  shows "m = \<lparr>columns = columns p @ agent_labels,
              rows = concat (map (enrich_row p a) (rows p))\<rparr>"
  using merge_enrich_explicit[OF assms(1) merge_enrich_success[OF assms(2)]] assms(2) by simp

lemma length_enrich_row:
  "length (enrich_row p a lr) = max 1 (length (matching_agents p a (cell (columns p) lr ''agentId'')))"
  by (cases "matching_agents p a (cell (columns p) lr ''agentId'')")
     (simp_all add: enrich_row_def Let_def)

text \<open>
  In general the merged frame has one row per property row and matching agent row, and
  one for a property row that matches none.
\<close>

lemma merge_row_count_general:
  assumes "wf_df p" and "joinable p a"
  shows "\<exists>m. merge_enrich p a = Inr m \<and>
           length (rows m) =
             sum_list (map (\<lambda>lr. max 1 (length (matching_agents p a (cell (columns p) lr ''agentId''))))
                           (rows p))"
  unfolding merge_enrich_explicit[OF assms]
  by (simp add: length_concat o_def length_enrich_row)

lemma enrich_row_single:
  assumes "length (matching_agents p a (cell (columns p) lr ''agentId'')) \<le> 1"
  shows "\<exists>xs. enrich_row p a lr = [lr @ xs]"
proof (cases "matching_agents p a (cell (columns p) lr ''agentId'')")
  case Nil
  then show ?thesis by (simp add: enrich_row_def)
next
  case (Cons ar ars)
  with assms have "ars = []" by simp
  with Cons show ?thesis by (simp add: enrich_row_def)
qed

lemma concat_enrich_rows:
  assumes "list_all (\<lambda>lr. length lr = n) rs"
    and "list_all (\<lambda>lr. length (matching_agents p a (cell (columns p) lr ''agentId'')) \<le> 1) rs"
  shows "map (take n) (concat (map (enrich_row p a) rs)) = rs"
  using assms
proof (induction rs)
  case Nil
  then show ?case by simp
next
  case (Cons lr rs)
  from Cons.prems obtain xs where "enrich_row p a lr = [lr @ xs]"
    using enrich_row_single[of p a lr] by auto
  with Cons show ?case by simp
qed

text \<open>
  C1, amended. For well-formed, joinable frames in which every property row is paired by the
  join with at most one agent row, the merge gives a frame with as many rows as the
  property frame, and cutting each merged row down to the property columns gives back the
  property rows, in order: every property record appears exactly once.
\<close>

theorem merge_row_count:
  assumes "wf_df property_df"
    and "joinable property_df agent_df"
    and "list_all (\<lambda>lr. length (matching_agents property_df agent_df
                                    (cell (columns property_df) lr ''agentId'')) \<le> 1)
           (rows property_df)"
  shows "\<exists>merged_df. merge_enrich property_df agent_df = Inr merged_df \<and>
           length (rows merged_df) = length (rows property_df) \<and>
           map (take (length (columns property_df))) (rows merged_df) = rows property_df"
proof -
  let ?m = "\<lparr>columns = columns property_df @ agent_labels,
             rows = concat (map (enrich_row property_df agent_df) (rows property_df))\<rparr>"
  have m: "merge_enrich property_df agent_df = Inr ?m"
    by (rule merge_enrich_explicit[OF assms(1,2)])
  have len: "list_all (\<lambda>lr. length lr = length (columns property_df)) (rows property_df)"
    using assms(1) by (simp add: wf_df_def)
  have t: "map (take (length (columns property_df))) (rows ?m) = rows property_df"
    using concat_enrich_rows[OF len assms(3)] by simp
  then have "length (rows ?m) = length (rows property_df)"
    by (metis length_map)
  with m t show ?thesis by blast
qed

lemmas frame_defs =
  merge_enrich_def select_cols_def agent_cols_to_merge_def agent_renaming_def rename_cols_def
  pd_merge_left_def join_row_def cell_def drop_key_def fillna_col_def bind_err_def
  column_values_def keys_compatible_def col_dtype_def numeric_def key_cast_def Let_def

lemma ex_merge: "merge_enrich ex_property ex_agents = Inr ex_merged"
  by (simp add: frame_defs ex_property_def ex_agents_def ex_merged_def)

lemma ex_joinable: "wf_df ex_property" "joinable ex_property ex_agents"
  by (simp_all add: wf_df_def joinable_def agent_cols_to_merge_def agent_labels_def
        column_values_def keys_compatible_def col_dtype_def numeric_def cell_def
        ex_property_def ex_agents_def)

theorem merge_row_count_witness:
  "wf_df ex_property \<and> joinable ex_property ex_agents \<and>
   list_all (\<lambda>lr. length (matching_agents ex_property ex_agents
                             (cell (columns ex_property) lr ''agentId'')) \<le> 1)
     (rows ex_property) \<and>
   merge_enrich ex_property ex_agents = Inr ex_merged \<and>
   length (rows ex_merged) = length (rows ex_property) \<and>
   map (take (length (columns ex_property))) (rows ex_merged) = rows ex_property"
proof -
  have h3: "list_all (\<lambda>lr. length (matching_agents ex_property ex_agents
                             (cell (columns ex_property) lr ''agentId'')) \<le> 1)
     (rows ex_property)"
    by (simp add: matching_agents_def column_values_def col_dtype_def numeric_def key_cast_def
          cell_def ex_property_def ex_agents_def)
  from merge_row_count[OF ex_joinable h3] ex_joinable h3 ex_merge show ?thesis
    by auto
qed

text \<open>
  C1 as stated fails when a foreign key matches several agent rows: one property row and
  two agent rows with its key give two merged rows.
\<close>

theorem merge_duplicates_rows:
  "\<not> df_empty ex_property_one \<and> \<not> df_empty ex_agents_twice \<and>
   length (rows ex_property_one) = 1 \<and>
   length (rows (projr (merge_enrich ex_property_one ex_agents_twice))) = 2 \<and>
   merge_enrich ex_property_one ex_agents_twice =
     Inr \<lparr>columns = [''id'', ''agentId'', ''agent_companyName'', ''agent_email'', ''agent_phoneNumber''],
          rows = [[Num 1, Num 10, Str ''Acme Realty'', Str ''a@x.com'', Str ''555''],
                  [Num 1, Num 10, Str ''Bolt Homes'', Str ''b@x.com'', Str ''777'']]\<rparr>"
  by (simp add: frame_defs df_empty_def ex_property_one_def ex_agents_twice_def)

text \<open>
  Two non-empty frames that are not joinable give no merged frame: a property column
  named like one of the new columns makes the fill fail, and a key column of nulls only
  is refused by the join against integer identifiers.
\<close>

lemma clash_gives_no_frame:
  "merge_enrich ex_property_clash ex_agents = Inl (KeyError [''agent_email''])"
  by (simp add: frame_defs ex_property_clash_def ex_agents_def)

lemma null_keys_give_no_frame:
  "merge_enrich ex_property_unassigned ex_agents =
     Inl (ValueError (''You are trying to merge on object and int64 columns for key ''
            @ [CHR 0x27] @ ''agentId'' @ [CHR 0x27]
            @ ''. If you wish to proceed you should use pd.concat''))"
  by (simp add: frame_defs ex_property_unassigned_def ex_agents_def)

lemma cell_append_left:
  assumes "length lr = length cp" and "c \<in> set cp"
  shows "cell (cp @ ls) (lr @ xs) c = cell cp lr c"
proof -
  from assms obtain v where "map_of (zip cp lr) c = Some v"
    by (metis map_of_zip_is_Some)
  then show ?thesis using assms(1) by (simp add: cell_def)
qed

lemma cell_append_right:
  assumes "length lr = length cp" and "c \<notin> set cp"
  shows "cell (cp @ ls) (lr @ xs) c = cell ls xs c"
proof -
  from assms have z: "map_of (zip cp lr) c = None"
    by (metis map_of_zip_is_None)
  show ?thesis using assms(1) by (simp add: cell_def map_add_def z)
qed

lemma f64_big: "f64 9007199254740993 = 9007199254740992" "f64 9007199254740992 = 9007199254740992"
  by (simp_all add: f64_def f64_nat_def bit_length.simps Let_def)

lemma f64_exact: "\<bar>n\<bar> \<le> 2 ^ 53 \<Longrightarrow> f64 n = n"
proof -
  have b: "f64_nat (2 ^ 53) = 2 ^ 53"
    by (simp add: f64_nat_def bit_length.simps Let_def)
  have s: "f64_nat k = k" if "k < 2 ^ 53" for k
    using that by (simp add: f64_nat_def)
  assume a: "\<bar>n\<bar> \<le> 2 ^ 53"
  show ?thesis
  proof (cases "\<bar>n\<bar> = 2 ^ 53")
    case True
    then have "nat \<bar>n\<bar> = 2 ^ 53" by simp
    with b have "f64_nat (nat \<bar>n\<bar>) = nat \<bar>n\<bar>" by simp
    then show ?thesis by (auto simp: f64_def abs_if split: if_splits)
  next
    case False
    with a have "nat \<bar>n\<bar> < 2 ^ 53" by (simp add: nat_less_iff)
    from s[OF this] show ?thesis by (auto simp: f64_def abs_if split: if_splits)
  qed
qed

text \<open>
  For keys that \<^verbatim>\<open>float64\<close> holds exactly, the comparison of the join is the comparison
  by value.
\<close>

lemma key_cast_exact: "exact_key v \<Longrightarrow> key_cast dl dr v = v"
  by (cases v) (simp_all add: exact_key_def key_cast_def f64_exact)

lemma matching_by_value:
  assumes "list_all exact_key (column_values a ''id'')" and "exact_key k"
  shows "matching_agents p a k = agents_with_id a k"
proof -
  have "key_cast dl dr (cell (columns a) ar ''id'') = key_cast dl dr k \<longleftrightarrow>
        cell (columns a) ar ''id'' = k" if "ar \<in> set (rows a)" for ar dl dr
  proof -
    from assms(1) that have "exact_key (cell (columns a) ar ''id'')"
      by (auto simp: column_values_def list_all_iff)
    then show ?thesis by (simp add: key_cast_exact assms(2))
  qed
  then show ?thesis
    by (auto simp: matching_agents_def agents_with_id_def Let_def intro!: filter_cong)
qed

text \<open>
  C2 as stated fails for keys beyond \<open>2 ^ 53\<close>: the key \<open>2 ^ 53 + 1\<close> of an integer column
  is the identifier of no agent, yet the join, which compares it as \<^verbatim>\<open>float64\<close> with an
  identifier column that has a null, pairs it with the agent \<open>2 ^ 53\<close>, and the merged row
  carries that agent's fields.
\<close>

theorem rounded_key_is_matched:
  "agents_with_id ex_agents_big (Num 9007199254740993) = [] \<and>
   merge_enrich ex_property_big ex_agents_big =
     Inr \<lparr>columns = [''id'', ''agentId'', ''agent_companyName'', ''agent_email'', ''agent_phoneNumber''],
          rows = [[Num 1, Num 9007199254740993, Str ''Acme Realty'', Str ''a@x.com'', Str ''555'']]\<rparr>"
  by (simp add: frame_defs agents_with_id_def f64_big ex_property_big_def ex_agents_big_def)

text \<open>
  C2, amended. In the merged frame, a row whose \<open>agentId\<close> is paired by the join with no
  agent row holds the three sentinels.
\<close>

theorem unmatched_row_has_sentinels:
  assumes "wf_df property_df"
    and "merge_enrich property_df agent_df = Inr merged_df"
    and "r \<in> set (rows merged_df)"
    and "matching_agents property_df agent_df (cell (columns merged_df) r ''agentId'') = []"
  shows "cell (columns merged_df) r ''agent_companyName'' = Str ''No Agent Assigned'' \<and>
         cell (columns merged_df) r ''agent_email'' = Str ''N/A'' \<and>
         cell (columns merged_df) r ''agent_phoneNumber'' = Str ''N/A''"
proof -
  let ?cp = "columns property_df"
  from merge_enrich_success[OF assms(2)]
  have key: "''agentId'' \<in> set ?cp" and nc: "set agent_labels \<inter> set ?cp = {}"
    by (simp_all add: joinable_iff)
  have m: "merged_df = \<lparr>columns = ?cp @ agent_labels,
              rows = concat (map (enrich_row property_df agent_df) (rows property_df))\<rparr>"
    by (rule merged_frame[OF assms(1,2)])
  from assms(3) obtain lr where lr: "lr \<in> set (rows property_df)"
    and r: "r \<in> set (enrich_row property_df agent_df lr)"
    unfolding m by auto
  have len: "length lr = length ?cp"
    using assms(1) lr by (auto simp: wf_df_def list_all_iff)
  from r obtain xs where rx: "r = lr @ xs"
    by (auto simp: enrich_row_def Let_def split: if_splits)
  have "cell (columns merged_df) r ''agentId'' = cell ?cp lr ''agentId''"
    unfolding m rx using cell_append_left[OF len key] by simp
  with assms(4) have "matching_agents property_df agent_df (cell ?cp lr ''agentId'') = []"
    by simp
  with r have r': "r = lr @ [Str ''No Agent Assigned'', Str ''N/A'', Str ''N/A'']"
    by (simp add: enrich_row_def)
  have n: "''agent_companyName'' \<notin> set ?cp" "''agent_email'' \<notin> set ?cp" "''agent_phoneNumber'' \<notin> set ?cp"
    using nc by (auto simp: agent_labels_def)
  show ?thesis
    unfolding m r'
    by (simp add: cell_append_right[OF len n(1)] cell_append_right[OF len n(2)]
          cell_append_right[OF len n(3)])
       (simp add: cell_def agent_labels_def)
qed

theorem unmatched_row_has_sentinels_witness:
  "wf_df ex_property \<and> merge_enrich ex_property ex_agents = Inr ex_merged \<and>
   [Num 2, Num 99, Str ''Condo'', Str ''Gotham'', Num 150000,
      Str ''No Agent Assigned'', Str ''N/A'', Str ''N/A''] \<in> set (rows ex_merged) \<and>
   matching_agents ex_property ex_agents (cell (columns ex_merged)
      [Num 2, Num 99, Str ''Condo'', Str ''Gotham'', Num 150000,
       Str ''No Agent Assigned'', Str ''N/A'', Str ''N/A''] ''agentId'') = [] \<and>
   cell (columns ex_merged)
      [Num 2, Num 99, Str ''Condo'', Str ''Gotham'', Num 150000,
       Str ''No Agent Assigned'', Str ''N/A'', Str ''N/A''] ''agent_companyName'' = Str ''No Agent Assigned'' \<and>
   cell (columns ex_merged)
      [Num 2, Num 99, Str ''Condo'', Str ''Gotham'', Num 150000,
       Str ''No Agent Assigned'', Str ''N/A'', Str ''N/A''] ''agent_email'' = Str ''N/A'' \<and>
   cell (columns ex_merged)
      [Num 2, Num 99, Str ''Condo'', Str ''Gotham'', Num 150000,
       Str ''No Agent Assigned'', Str ''N/A'', Str ''N/A''] ''agent_phoneNumber'' = Str ''N/A''"
proof -
  let ?r = "[Num 2, Num 99, Str ''Condo'', Str ''Gotham'', Num 150000,
      Str ''No Agent Assigned'', Str ''N/A'', Str ''N/A'']"
  have h3: "?r \<in> set (rows ex_merged)"
    by (simp add: ex_merged_def)
  have h4: "matching_agents ex_property ex_agents (cell (columns ex_merged) ?r ''agentId'') = []"
    by (simp add: matching_agents_def column_values_def col_dtype_def numeric_def key_cast_def
          cell_def ex_merged_def ex_agents_def ex_property_def)
  from unmatched_row_has_sentinels[OF ex_joinable(1) ex_merge h3 h4] ex_joinable(1) ex_merge h3 h4
  show ?thesis
    by blast
qed

section \<open>Properties of the filter\<close>

lemma filter_eq_rows:
  "c \<in> set (columns d) \<Longrightarrow>
   filter_eq d c s = Inr (d\<lparr>rows := filter (\<lambda>r. py_eq (cell (columns d) r c) s) (rows d)\<rparr>)"
  by (simp add: filter_eq_def)

lemma filter_eq_Inr:
  "filter_eq d c s = Inr d' \<Longrightarrow>
   c \<in> set (columns d) \<and> d' = d\<lparr>rows := filter (\<lambda>r. py_eq (cell (columns d) r c) s) (rows d)\<rparr>"
  by (auto simp: filter_eq_def split: if_splits)

text \<open>Three filters one after the other are one filter by the conjunction.\<close>

lemma apply_filters_rows:
  assumes "st = Str ''All'' \<or> ''propertyType'' \<in> set (columns m)"
    and "sc = Str ''All'' \<or> ''city'' \<in> set (columns m)"
    and "sa = Str ''All'' \<or> ''agent_companyName'' \<in> set (columns m)"
  shows "apply_filters m st sc sa = Inr (m\<lparr>rows := filter (kept (columns m) st sc sa) (rows m)\<rparr>)"
proof -
  have eq: "d\<lparr>rows := filter P (rows d)\<rparr> = d\<lparr>rows := filter Q (rows d)\<rparr>"
    if "\<And>r. P r = Q r" for d :: dataframe and P Q
  proof -
    from that have "P = Q" by (rule ext)
    then show ?thesis by simp
  qed
  show ?thesis
    using assms
    by (cases "st = Str ''All''"; cases "sc = Str ''All''"; cases "sa = Str ''All''")
       (auto simp: apply_filters_def bind_err_def filter_eq_def kept_def intro!: eq)
qed

lemma apply_filters_Inr:
  assumes "apply_filters m st sc sa = Inr out"
  shows "out = m\<lparr>rows := filter (kept (columns m) st sc sa) (rows m)\<rparr>"
proof -
  have 1: "st = Str ''All'' \<or> ''propertyType'' \<in> set (columns m)"
    using assms by (auto simp: apply_filters_def bind_err_def filter_eq_def split: if_splits sum.splits)
  have 2: "sc = Str ''All'' \<or> ''city'' \<in> set (columns m)"
    using assms by (auto simp: apply_filters_def bind_err_def filter_eq_def split: if_splits sum.splits)
  have 3: "sa = Str ''All'' \<or> ''agent_companyName'' \<in> set (columns m)"
    using assms by (auto simp: apply_filters_def bind_err_def filter_eq_def split: if_splits sum.splits)
  from apply_filters_rows[OF 1 2 3] assms show ?thesis by simp
qed

text \<open>
  What a select box returns is the wildcard unless its column exists, and it is one of
  the options: the filters never fail on the selections the page can make.
\<close>

lemma selectbox_in_options: "selectbox (filter_options m c) i \<in> set (filter_options m c)"
  by (simp add: selectbox_def filter_options_def)


lemma selectbox_first: "selectbox (filter_options m c) 0 = Str ''All''"
  by (simp add: selectbox_def filter_options_def)

lemma py_eq_text: "py_eq (Str a) (Str b) \<longleftrightarrow> a = b"
  by (simp add: py_eq_def)

lemma py_eq_null: "\<not> py_eq Null s" "\<not> py_eq x Null"
  by (simp_all add: py_eq_def)



text \<open>A null selection (the option that stands for the missing values) keeps no row.\<close>

lemma null_selection_keeps_nothing:
  "\<not> kept cs Null sc sa r" "\<not> kept cs st Null sa r" "\<not> kept cs st sc Null r"
  by (simp_all add: kept_def py_eq_def)



text \<open>
  C4. With the wildcard in all three select boxes the filtered frame is the merged frame.
\<close>

theorem filter_all_wildcards_identity:
  "apply_filters merged_df (Str ''All'') (Str ''All'') (Str ''All'') = Inr merged_df"
  by (simp add: apply_filters_def bind_err_def)

theorem filter_all_wildcards_identity_witness:
  "apply_filters ex_merged (Str ''All'') (Str ''All'') (Str ''All'') = Inr ex_merged"
  by (rule filter_all_wildcards_identity)


lemma kept_All:
  "kept cs (Str ''All'') sc sa r \<longleftrightarrow>
     (sc = Str ''All'' \<or> py_eq (cell cs r ''city'') sc) \<and>
     (sa = Str ''All'' \<or> py_eq (cell cs r ''agent_companyName'') sa)"
  "kept cs st (Str ''All'') sa r \<longleftrightarrow>
     (st = Str ''All'' \<or> py_eq (cell cs r ''propertyType'') st) \<and>
     (sa = Str ''All'' \<or> py_eq (cell cs r ''agent_companyName'') sa)"
  "kept cs st sc (Str ''All'') r \<longleftrightarrow>
     (st = Str ''All'' \<or> py_eq (cell cs r ''propertyType'') st) \<and>
     (sc = Str ''All'' \<or> py_eq (cell cs r ''city'') sc)"
  by (simp_all add: kept_def)

lemma shown_All_forces_wildcard:
  assumes "kept cs st sc sa r"
  shows "cell cs r ''propertyType'' = Str ''All'' \<Longrightarrow> st = Str ''All''"
    and "cell cs r ''city'' = Str ''All'' \<Longrightarrow> sc = Str ''All''"
    and "cell cs r ''agent_companyName'' = Str ''All'' \<Longrightarrow> sa = Str ''All''"
  using assms by (auto simp: kept_def py_eq_def)

text \<open>
  C10. The selection \<open>Str ''All''\<close> is the wildcard also when it is a value of the data.
  Selecting it for a column leaves that column unconstrained: the output is decided by
  the two other selections. A row whose cell in a filter column is \<open>Str ''All''\<close> is in the
  output only when that column's selection is the wildcard, so no selection shows those
  rows apart from the others. With \<open>Str ''All''\<close> selected in all three boxes the output is
  the whole frame.
\<close>

theorem all_is_the_wildcard:
  assumes "apply_filters m st sc sa = Inr out"
  shows "(st = Str ''All'' \<longrightarrow>
            rows out = filter (\<lambda>r. (sc = Str ''All'' \<or> py_eq (cell (columns m) r ''city'') sc) \<and>
                                    (sa = Str ''All'' \<or> py_eq (cell (columns m) r ''agent_companyName'') sa))
                              (rows m)) \<and>
         (sc = Str ''All'' \<longrightarrow>
            rows out = filter (\<lambda>r. (st = Str ''All'' \<or> py_eq (cell (columns m) r ''propertyType'') st) \<and>
                                    (sa = Str ''All'' \<or> py_eq (cell (columns m) r ''agent_companyName'') sa))
                              (rows m)) \<and>
         (sa = Str ''All'' \<longrightarrow>
            rows out = filter (\<lambda>r. (st = Str ''All'' \<or> py_eq (cell (columns m) r ''propertyType'') st) \<and>
                                    (sc = Str ''All'' \<or> py_eq (cell (columns m) r ''city'') sc))
                              (rows m)) \<and>
         (list_ex (\<lambda>r. cell (columns m) r ''propertyType'' = Str ''All'') (rows out) \<longrightarrow> st = Str ''All'') \<and>
         (list_ex (\<lambda>r. cell (columns m) r ''city'' = Str ''All'') (rows out) \<longrightarrow> sc = Str ''All'') \<and>
         (list_ex (\<lambda>r. cell (columns m) r ''agent_companyName'' = Str ''All'') (rows out) \<longrightarrow> sa = Str ''All'') \<and>
         apply_filters m (Str ''All'') (Str ''All'') (Str ''All'') = Inr m"
proof -
  have out: "rows out = filter (kept (columns m) st sc sa) (rows m)"
    using apply_filters_Inr[OF assms] by simp
  have shown: "kept (columns m) st sc sa r" if "r \<in> set (rows out)" for r
    using that unfolding out by simp
  have a: "st = Str ''All'' \<longrightarrow>
            rows out = filter (\<lambda>r. (sc = Str ''All'' \<or> py_eq (cell (columns m) r ''city'') sc) \<and>
                                    (sa = Str ''All'' \<or> py_eq (cell (columns m) r ''agent_companyName'') sa))
                              (rows m)"
    unfolding out by (auto intro!: filter_cong simp: kept_All)
  have b: "sc = Str ''All'' \<longrightarrow>
            rows out = filter (\<lambda>r. (st = Str ''All'' \<or> py_eq (cell (columns m) r ''propertyType'') st) \<and>
                                    (sa = Str ''All'' \<or> py_eq (cell (columns m) r ''agent_companyName'') sa))
                              (rows m)"
    unfolding out by (auto intro!: filter_cong simp: kept_All)
  have c: "sa = Str ''All'' \<longrightarrow>
            rows out = filter (\<lambda>r. (st = Str ''All'' \<or> py_eq (cell (columns m) r ''propertyType'') st) \<and>
                                    (sc = Str ''All'' \<or> py_eq (cell (columns m) r ''city'') sc))
                              (rows m)"
    unfolding out by (auto intro!: filter_cong simp: kept_All)
  have d: "list_ex (\<lambda>r. cell (columns m) r ''propertyType'' = Str ''All'') (rows out) \<longrightarrow> st = Str ''All''"
    using shown shown_All_forces_wildcard(1) unfolding list_ex_iff by blast
  have e: "list_ex (\<lambda>r. cell (columns m) r ''city'' = Str ''All'') (rows out) \<longrightarrow> sc = Str ''All''"
    using shown shown_All_forces_wildcard(2) unfolding list_ex_iff by blast
  have f: "list_ex (\<lambda>r. cell (columns m) r ''agent_companyName'' = Str ''All'') (rows out) \<longrightarrow> sa = Str ''All''"
    using shown shown_All_forces_wildcard(3) unfolding list_ex_iff by blast
  have g: "apply_filters m (Str ''All'') (Str ''All'') (Str ''All'') = Inr m"
    by (simp add: apply_filters_def bind_err_def)
  from a b c d e f g show ?thesis by blast
qed

theorem all_is_the_wildcard_witness:
  "selectbox (filter_options ex_typed_all ''propertyType'') 1 = Str ''All'' \<and>
   apply_filters ex_typed_all (selectbox (filter_options ex_typed_all ''propertyType'') 1)
      (Str ''All'') (Str ''All'') = Inr ex_typed_all \<and>
   rows ex_typed_all = [[Num 1, Str ''All'', Str ''Gotham'', Str ''Acme Realty''],
                        [Num 2, Str ''House'', Str ''Gotham'', Str ''Acme Realty'']] \<and>
   list_ex (\<lambda>r. cell (columns ex_typed_all) r ''propertyType'' = Str ''All'') (rows ex_typed_all)"
proof -
  have s: "selectbox (filter_options ex_typed_all ''propertyType'') 1 = Str ''All''"
    by (simp add: selectbox_def filter_options_def column_values_def unique_def cell_def
          ex_typed_all_def)
  have h0: "apply_filters ex_typed_all (Str ''All'') (Str ''All'') (Str ''All'') = Inr ex_typed_all"
    by (simp add: apply_filters_def bind_err_def)
  from all_is_the_wildcard[OF h0]
  have h: "apply_filters ex_typed_all (Str ''All'') (Str ''All'') (Str ''All'') = Inr ex_typed_all"
    by blast
  have r: "rows ex_typed_all = [[Num 1, Str ''All'', Str ''Gotham'', Str ''Acme Realty''],
                        [Num 2, Str ''House'', Str ''Gotham'', Str ''Acme Realty'']]"
    by (simp add: ex_typed_all_def)
  have l: "list_ex (\<lambda>r. cell (columns ex_typed_all) r ''propertyType'' = Str ''All'') (rows ex_typed_all)"
    by (simp add: cell_def ex_typed_all_def)
  from s h r l show ?thesis by simp
qed

section \<open>Properties of the table fetcher\<close>

lemma ex_query:
  "select_query ''Agent'' 1000 = ''SELECT * FROM '' @ [CHR 0x22] @ ''Agent'' @ [CHR 0x22] @ '' LIMIT 1000''"
  by (simp add: select_query_def str_int_def str_nat.simps)

text \<open>
  C5. When the connection fails, or the query fails, the error is written to the page and
  the empty frame is returned; a connection that was opened is closed last, when the query
  failed and when it went through; a connection that was never opened is not closed.
\<close>

theorem fetch_data_reports_and_closes:
  "(db_connect d params = Some e \<longrightarrow>
      fetch_data params d table_name limit =
        ([Db_connect params,
          St_error (''Error fetching '' @ table_name @ '': '' @ str_error e)],
         empty_frame)) \<and>
   (db_connect d params = None \<and> db_read_sql d (select_query table_name limit) = Inl e \<longrightarrow>
      fetch_data params d table_name limit =
        ([Db_connect params, Db_read_sql (select_query table_name limit),
          St_error (''Error fetching '' @ table_name @ '': '' @ str_error e),
          Db_close],
         empty_frame)) \<and>
   (db_connect d params = None \<and> db_read_sql d (select_query table_name limit) = Inr df \<longrightarrow>
      fetch_data params d table_name limit =
        ([Db_connect params, Db_read_sql (select_query table_name limit), Db_close], df))"
  by (simp add: fetch_data_def fetch_try_def Let_def)

theorem fetch_data_reports_and_closes_witness:
  "fetch_data ex_params ex_db_down ''Agent'' 1000 =
     ([Db_connect ex_params, St_error ''Error fetching Agent: connection refused''], empty_frame) \<and>
   fetch_data ex_params ex_db_no_table ''Agent'' 1000 =
     ([Db_connect ex_params,
       Db_read_sql (''SELECT * FROM '' @ [CHR 0x22] @ ''Agent'' @ [CHR 0x22] @ '' LIMIT 1000''),
       St_error ''Error fetching Agent: relation does not exist'', Db_close], empty_frame) \<and>
   fetch_data ex_params ex_db_ok ''Agent'' 1000 =
     ([Db_connect ex_params,
       Db_read_sql (''SELECT * FROM '' @ [CHR 0x22] @ ''Agent'' @ [CHR 0x22] @ '' LIMIT 1000''),
       Db_close], ex_agents)"
proof -
  have c1: "db_connect ex_db_down ex_params = Some (OperationalError ''connection refused'')"
    by (simp add: ex_db_down_def)
  have c2: "db_connect ex_db_no_table ex_params = None \<and>
            db_read_sql ex_db_no_table (select_query ''Agent'' 1000) =
              Inl (DatabaseError ''relation does not exist'')"
    by (simp add: ex_db_no_table_def)
  have c3: "db_connect ex_db_ok ex_params = None \<and>
            db_read_sql ex_db_ok (select_query ''Agent'' 1000) = Inr ex_agents"
    by (simp add: ex_db_ok_def)
  from fetch_data_reports_and_closes[where d = ex_db_down and params = ex_params
         and e = "OperationalError ''connection refused''" and table_name = "''Agent''" and limit = 1000] c1
  have r1: "fetch_data ex_params ex_db_down ''Agent'' 1000 =
     ([Db_connect ex_params, St_error ''Error fetching Agent: connection refused''], empty_frame)"
    by simp
  from fetch_data_reports_and_closes[where d = ex_db_no_table and params = ex_params
         and e = "DatabaseError ''relation does not exist''" and table_name = "''Agent''" and limit = 1000] c2
  have r2: "fetch_data ex_params ex_db_no_table ''Agent'' 1000 =
     ([Db_connect ex_params, Db_read_sql (select_query ''Agent'' 1000),
       St_error ''Error fetching Agent: relation does not exist'', Db_close], empty_frame)"
    by simp
  from fetch_data_reports_and_closes[where d = ex_db_ok and params = ex_params
         and df = ex_agents and table_name = "''Agent''" and limit = 1000] c3
  have r3: "fetch_data ex_params ex_db_ok ''Agent'' 1000 =
     ([Db_connect ex_params, Db_read_sql (select_query ''Agent'' 1000), Db_close], ex_agents)"
    by simp
  from r1 r2 r3 show ?thesis
    by (simp only: ex_query) 
qed

section \<open>Properties of the cache\<close>








section \<open>Properties of the page\<close>

text \<open>
  C7. With both tables empty the page shows one warning and the run stops. With one table
  empty the page shows a warning, the other table as it was fetched, and the notice that
  the merge is not done; no merged or filtered frame is shown.
\<close>

theorem empty_table_skips_merge:
  "(df_empty agent_df \<and> df_empty property_df \<longrightarrow>
      run_page agent_df property_df ui charts =
        ([St_warning (warning_sign @ '' No data returned from either Agent or Property tables.'')],
         Stop)) \<and>
   (df_empty agent_df \<and> \<not> df_empty property_df \<longrightarrow>
      run_page agent_df property_df ui charts =
        ([St_warning (warning_sign @ '' No data returned from Agent table.''),
          St_success (check_mark @ '' Connected to database and fetched data.''),
          St_subheader ''Property Data'', St_dataframe property_df,
          St_info ''Agent data is empty, cannot perform merge or agent-related visualizations.''],
         Done)) \<and>
   (\<not> df_empty agent_df \<and> df_empty property_df \<longrightarrow>
      run_page agent_df property_df ui charts =
        ([St_warning (warning_sign @ '' No data returned from Property table.''),
          St_success (check_mark @ '' Connected to database and fetched data.''),
          St_subheader ''Agent Data'', St_dataframe agent_df,
          St_info ''Property data is empty, cannot perform merge or property-related visualizations.''],
         Done))"
  by (simp add: run_page_def page_body_def)

lemma ex_empty: "df_empty empty_frame" "\<not> df_empty ex_agents" "\<not> df_empty ex_property"
  by (simp_all add: df_empty_def empty_frame_def ex_agents_def ex_property_def)

theorem empty_table_skips_merge_witness:
  "run_page empty_frame empty_frame ex_picks ex_charts =
     ([St_warning (warning_sign @ '' No data returned from either Agent or Property tables.'')],
      Stop) \<and>
   run_page empty_frame ex_property ex_picks ex_charts =
     ([St_warning (warning_sign @ '' No data returned from Agent table.''),
       St_success (check_mark @ '' Connected to database and fetched data.''),
       St_subheader ''Property Data'', St_dataframe ex_property,
       St_info ''Agent data is empty, cannot perform merge or agent-related visualizations.''],
      Done) \<and>
   run_page ex_agents empty_frame ex_picks ex_charts =
     ([St_warning (warning_sign @ '' No data returned from Property table.''),
       St_success (check_mark @ '' Connected to database and fetched data.''),
       St_subheader ''Agent Data'', St_dataframe ex_agents,
       St_info ''Property data is empty, cannot perform merge or property-related visualizations.''],
      Done)"
  using empty_table_skips_merge[of empty_frame empty_frame ex_picks ex_charts]
        empty_table_skips_merge[of empty_frame ex_property ex_picks ex_charts]
        empty_table_skips_merge[of ex_agents empty_frame ex_picks ex_charts]
        ex_empty
  by blast

lemma sublist_SSL_has_S: "sublist ''SSL'' s \<Longrightarrow> CHR ''S'' \<in> set s"
  by (auto simp: sublist_def)

lemma set_join_labels:
  "set (join_labels ls) \<subseteq> (\<Union>c\<in>set ls. set c) \<union> {CHR 0x27, CHR '','', CHR '' ''}"
  by (induction ls rule: join_labels.induct) auto

lemma missing_columns_known:
  "set (missing_columns p a) \<subseteq> insert ''agentId'' (set agent_cols_to_merge)"
  by (auto simp: missing_columns_def Let_def)

lemma missing_columns_no_hint: "ssl_hint (KeyError (missing_columns p a)) = []"
proof -
  have "CHR ''S'' \<notin> (\<Union>c\<in>insert ''agentId'' (set agent_cols_to_merge). set c)"
    by (simp add: agent_cols_to_merge_def)
  with missing_columns_known[of p a] have "CHR ''S'' \<notin> (\<Union>c\<in>set (missing_columns p a). set c)"
    by blast
  with set_join_labels[of "missing_columns p a"] have "CHR ''S'' \<notin> set (join_labels (missing_columns p a))"
    by auto
  with sublist_SSL_has_S show ?thesis
    by (auto simp: ssl_hint_def)
qed

lemma merge_enrich_missing:
  assumes "\<not> set agent_cols_to_merge \<subseteq> set (columns a) \<or> ''agentId'' \<notin> set (columns p)"
  shows "merge_enrich p a = Inl (KeyError (missing_columns p a))"
proof (cases "set agent_cols_to_merge \<subseteq> set (columns a)")
  case False
  from select_agent_fail[OF False] show ?thesis
    by (simp add: merge_enrich_def bind_err_def missing_columns_def)
next
  case True
  with assms have key: "''agentId'' \<notin> set (columns p)" by simp
  from True have "filter (\<lambda>c. c \<notin> set (columns a)) agent_cols_to_merge = []"
    by (auto simp: filter_empty_conv)
  then have ms: "missing_columns p a = [''agentId'']"
    by (simp add: missing_columns_def)
  show ?thesis
    unfolding ms merge_enrich_def
    by (simp add: select_agent_ok[OF True] rename_selected bind_err_def pd_merge_left_def key)
qed

text \<open>
  C8. With two non-empty tables, when the agent table lacks one of its four columns or the
  property table lacks the key, the join raises a \<^verbatim>\<open>KeyError\<close> that names the missing
  labels; the \<^verbatim>\<open>except\<close> clause of the page turns it into an error notice after what was
  already shown, and the run ends in the ordinary way.
\<close>

theorem schema_mismatch_is_reported:
  assumes "\<not> df_empty agent_df" and "\<not> df_empty property_df"
    and "\<not> set agent_cols_to_merge \<subseteq> set (columns agent_df) \<or> ''agentId'' \<notin> set (columns property_df)"
  shows "merge_enrich property_df agent_df = Inl (KeyError (missing_columns property_df agent_df)) \<and>
         missing_columns property_df agent_df \<noteq> [] \<and>
         page_body agent_df property_df ui charts =
           ([St_success (check_mark @ '' Connected to database and fetched data.'')],
            Raised (KeyError (missing_columns property_df agent_df))) \<and>
         run_page agent_df property_df ui charts =
           ([St_success (check_mark @ '' Connected to database and fetched data.''),
             St_error (cross_mark @ '' An unexpected error occurred: ''
                       @ str_error (KeyError (missing_columns property_df agent_df)))],
            Done)"
proof -
  note m = merge_enrich_missing[OF assms(3)]
  have ne: "missing_columns property_df agent_df \<noteq> []"
    by (simp add: missing_columns_def Let_def)
  have body: "page_body agent_df property_df ui charts =
           ([St_success (check_mark @ '' Connected to database and fetched data.'')],
            Raised (KeyError (missing_columns property_df agent_df)))"
    using assms(1,2) by (simp add: page_body_def m)
  have "run_page agent_df property_df ui charts =
           ([St_success (check_mark @ '' Connected to database and fetched data.''),
             St_error (cross_mark @ '' An unexpected error occurred: ''
                       @ str_error (KeyError (missing_columns property_df agent_df)))],
            Done)"
    unfolding run_page_def body
    by (simp only: prod.case flow.case missing_columns_no_hint append_Nil2 append_Cons append_Nil)
  with m ne body show ?thesis by blast
qed

theorem schema_mismatch_is_reported_witness:
  "\<not> df_empty ex_agents_no_email \<and> \<not> df_empty ex_property \<and>
   \<not> set agent_cols_to_merge \<subseteq> set (columns ex_agents_no_email) \<and>
   merge_enrich ex_property ex_agents_no_email = Inl (KeyError [''email'']) \<and>
   run_page ex_agents_no_email ex_property ex_picks ex_charts =
     ([St_success (check_mark @ '' Connected to database and fetched data.''),
       St_error (cross_mark @ '' An unexpected error occurred: '' @ [CHR 0x27] @ ''email'' @ [CHR 0x27])],
      Done)"
proof -
  have h1: "\<not> df_empty ex_agents_no_email"
    by (simp add: df_empty_def ex_agents_no_email_def)
  have h2: "\<not> df_empty ex_property"
    by (simp add: df_empty_def ex_property_def)
  have h3: "\<not> set agent_cols_to_merge \<subseteq> set (columns ex_agents_no_email)"
    by (simp add: agent_cols_to_merge_def ex_agents_no_email_def)
  have ms: "missing_columns ex_property ex_agents_no_email = [''email'']"
    by (simp add: missing_columns_def agent_cols_to_merge_def ex_agents_no_email_def)
  from schema_mismatch_is_reported[OF h1 h2 disjI1[OF h3], of ex_picks ex_charts] h1 h2 h3
  show ?thesis
    unfolding ms by simp
qed

section \<open>Properties of the configuration\<close>

lemma script_without_credentials:
  assumes "\<not> list_all truthy (map env credential_variables)"
  shows "script t_agent t_property env d ui charts =
           (connection_info env @
              [St_error (cross_mark @ '' Missing database credentials! Please check your .env file.''),
               St_info ''Required variables: DB_HOST, DB_NAME, DB_USER, DB_PASSWORD''],
            Stop)"
  using assms by (auto simp: script_def run_script_def Let_def credential_variables_def)

lemma script_without_tables:
  assumes "list_all truthy (map env credential_variables)"
    and "\<not> list_all truthy (map env table_variables)"
  shows "script t_agent t_property env d ui charts =
           (connection_info env @
              [St_error (cross_mark @ '' Missing table names! Please set DB_TABLE_AGENT and DB_TABLE_PROPERTY in your .env file.'')],
            Stop)"
  using assms by (auto simp: script_def run_script_def Let_def credential_variables_def table_variables_def)

lemma connection_info_no_db: "filter is_db_event (connection_info env) = []"
  by (simp add: connection_info_def)

lemma names_variable_append:
  "names_variable v (xs @ ys) \<longleftrightarrow> names_variable v xs \<or> names_variable v ys"
  by (simp add: names_variable_def)

lemma named_after:
  "list_all (\<lambda>v. names_variable v ys) vs \<Longrightarrow> list_all (\<lambda>v. names_variable v (xs @ ys)) vs"
  by (induction vs) (auto simp: names_variable_append)

lemma credentials_named:
  "list_all (\<lambda>v. names_variable v
       [St_error (cross_mark @ '' Missing database credentials! Please check your .env file.''),
        St_info ''Required variables: DB_HOST, DB_NAME, DB_USER, DB_PASSWORD''])
     credential_variables"
  by (simp add: names_variable_def credential_variables_def sublist_code)

lemma tables_named:
  "list_all (\<lambda>v. names_variable v
       [St_error (cross_mark @ '' Missing table names! Please set DB_TABLE_AGENT and DB_TABLE_PROPERTY in your .env file.'')])
     table_variables"
  by (simp add: names_variable_def table_variables_def sublist_code cross_mark_def)

lemma fetch_data_first_event:
  "\<exists>rest. fst (fetch_data params d table_name limit) = Db_connect params # rest"
  by (cases "db_connect d params"; cases "db_read_sql d (select_query table_name limit)")
     (simp_all add: fetch_data_def fetch_try_def Let_def)

lemma script_with_configuration:
  assumes "list_all truthy (map env (credential_variables @ table_variables))"
  shows "\<exists>rest. filter is_db_event (fst (script t_agent t_property env d ui charts)) =
           Db_connect \<lparr>host = env ''DB_HOST'', port = getenv_default env ''DB_PORT'' ''5432'',
                       database = env ''DB_NAME'', user = env ''DB_USER'',
                       password = env ''DB_PASSWORD'',
                       sslmode = getenv_default env ''DB_SSL_MODE'' ''require'',
                       connect_timeout = 10\<rparr> # rest"
proof -
  let ?params = "\<lparr>host = env ''DB_HOST'', port = getenv_default env ''DB_PORT'' ''5432'',
                       database = env ''DB_NAME'', user = env ''DB_USER'',
                       password = env ''DB_PASSWORD'',
                       sslmode = getenv_default env ''DB_SSL_MODE'' ''require'',
                       connect_timeout = 10\<rparr>"
  let ?ta = "fmt (env ''DB_TABLE_AGENT'')" and ?tp = "fmt (env ''DB_TABLE_PROPERTY'')"
  obtain evs1 agent_df where f1: "fetch_data ?params d ?ta 1000 = (evs1, agent_df)"
    by (cases "fetch_data ?params d ?ta 1000")
  let ?c1 = "empty_cache((?ta, 1000) \<mapsto> (agent_df, error_texts evs1, t_agent))"
  have g1: "fetch_data_cached ?params d empty_cache t_agent ?ta 1000 = (evs1, agent_df, ?c1)"
    by (simp add: fetch_data_cached_def cache_lookup_def empty_cache_def f1)
  obtain evs2 property_df c2 where
    g2: "fetch_data_cached ?params d ?c1 t_property ?tp 1000 = (evs2, property_df, c2)"
    by (cases "fetch_data_cached ?params d ?c1 t_property ?tp 1000")
  obtain evs3 fl where f3: "run_page agent_df property_df ui charts = (evs3, fl)"
    by (cases "run_page agent_df property_df ui charts")
  from fetch_data_first_event[of ?params d ?ta 1000] f1
  obtain rest where r: "evs1 = Db_connect ?params # rest" by auto
  have "script t_agent t_property env d ui charts = (connection_info env @ evs1 @ evs2 @ evs3, fl)"
    using assms
    by (simp add: script_def run_script_def Let_def credential_variables_def table_variables_def
          g1 g2 f3)
  then show ?thesis
    by (simp add: connection_info_no_db r)
qed

text \<open>
  C9 as stated fails when values of both groups are absent: the run stops at the check of
  the credentials, and no notice names \<^verbatim>\<open>DB_TABLE_AGENT\<close>.
\<close>

theorem blank_env_table_not_named:
  "blank_env ''DB_TABLE_AGENT'' = None \<and>
   snd (script 0 1 blank_env ex_db_ok ex_picks ex_charts) = Stop \<and>
   \<not> names_variable ''DB_TABLE_AGENT'' (fst (script 0 1 blank_env ex_db_ok ex_picks ex_charts))"
proof -
  have c: "\<not> list_all truthy (map blank_env credential_variables)"
    by (simp add: blank_env_def credential_variables_def truthy_def)
  show ?thesis
    unfolding script_without_credentials[OF c]
    by (simp add: blank_env_def names_variable_def connection_info_def sublist_code cross_mark_def)
qed

text \<open>
  C9, amended. When a required value is absent (or empty), the run stops with no call to
  the database, after a notice that names the variables of the first group with a missing
  value: the four credentials, or else the two table names. When the six values are
  there, the first call to the database is the connection, with port \<^verbatim>\<open>5432\<close> and TLS
  mode \<^verbatim>\<open>require\<close> when these two variables are absent.
\<close>

theorem missing_configuration_halts:
  "(\<not> list_all truthy (map env (credential_variables @ table_variables)) \<longrightarrow>
      snd (script t_agent t_property env d ui charts) = Stop \<and>
      filter is_db_event (fst (script t_agent t_property env d ui charts)) = [] \<and>
      list_all (\<lambda>v. names_variable v (fst (script t_agent t_property env d ui charts)))
        (if list_all truthy (map env credential_variables) then table_variables
         else credential_variables)) \<and>
   (list_all truthy (map env (credential_variables @ table_variables)) \<and>
    env ''DB_PORT'' = None \<and> env ''DB_SSL_MODE'' = None \<longrightarrow>
      (\<exists>rest. filter is_db_event (fst (script t_agent t_property env d ui charts)) =
         Db_connect \<lparr>host = env ''DB_HOST'', port = ''5432'', database = env ''DB_NAME'',
                     user = env ''DB_USER'', password = env ''DB_PASSWORD'',
                     sslmode = ''require'', connect_timeout = 10\<rparr> # rest))"
proof (intro conjI impI)
  assume miss: "\<not> list_all truthy (map env (credential_variables @ table_variables))"
  show "snd (script t_agent t_property env d ui charts) = Stop"
  proof (cases "list_all truthy (map env credential_variables)")
    case True
    with miss have "\<not> list_all truthy (map env table_variables)" by simp
    from script_without_tables[OF True this] show ?thesis by simp
  next
    case False
    from script_without_credentials[OF False] show ?thesis by simp
  qed
  show "filter is_db_event (fst (script t_agent t_property env d ui charts)) = []"
  proof (cases "list_all truthy (map env credential_variables)")
    case True
    with miss have "\<not> list_all truthy (map env table_variables)" by simp
    from script_without_tables[OF True this] show ?thesis by (simp add: connection_info_no_db)
  next
    case False
    from script_without_credentials[OF False] show ?thesis by (simp add: connection_info_no_db)
  qed
  show "list_all (\<lambda>v. names_variable v (fst (script t_agent t_property env d ui charts)))
        (if list_all truthy (map env credential_variables) then table_variables
         else credential_variables)"
  proof (cases "list_all truthy (map env credential_variables)")
    case True
    with miss have "\<not> list_all truthy (map env table_variables)" by simp
    from script_without_tables[OF True this] True show ?thesis
      by (simp only: fst_conv if_True named_after[OF tables_named])
  next
    case False
    from script_without_credentials[OF False] False show ?thesis
      by (simp only: fst_conv if_False named_after[OF credentials_named])
  qed
next
  assume a: "list_all truthy (map env (credential_variables @ table_variables)) \<and>
    env ''DB_PORT'' = None \<and> env ''DB_SSL_MODE'' = None"
  then have "getenv_default env ''DB_PORT'' ''5432'' = ''5432''"
    and "getenv_default env ''DB_SSL_MODE'' ''require'' = ''require''"
    by (simp_all add: getenv_default_def)
  with script_with_configuration[where env = env and d = d and ui = ui and charts = charts and t_agent = t_agent and t_property = t_property] a
  show "\<exists>rest. filter is_db_event (fst (script t_agent t_property env d ui charts)) =
         Db_connect \<lparr>host = env ''DB_HOST'', port = ''5432'', database = env ''DB_NAME'',
                     user = env ''DB_USER'', password = env ''DB_PASSWORD'',
                     sslmode = ''require'', connect_timeout = 10\<rparr> # rest"
    by simp
qed

theorem missing_configuration_halts_witness:
  "\<not> list_all truthy (map blank_env (credential_variables @ table_variables)) \<and>
   snd (script 0 1 blank_env ex_db_ok ex_picks ex_charts) = Stop \<and>
   filter is_db_event (fst (script 0 1 blank_env ex_db_ok ex_picks ex_charts)) = [] \<and>
   list_all (\<lambda>v. names_variable v (fst (script 0 1 blank_env ex_db_ok ex_picks ex_charts)))
     credential_variables \<and>
   list_all truthy (map ex_env (credential_variables @ table_variables)) \<and>
   ex_env ''DB_PORT'' = None \<and> ex_env ''DB_SSL_MODE'' = None \<and>
   (\<exists>rest. filter is_db_event (fst (script 0 1 ex_env ex_db_ok ex_picks ex_charts)) =
      Db_connect ex_params # rest)"
proof -
  have b: "\<not> list_all truthy (map blank_env (credential_variables @ table_variables))"
    by (simp add: blank_env_def credential_variables_def truthy_def)
  have bc: "\<not> list_all truthy (map blank_env credential_variables)"
    by (simp add: blank_env_def credential_variables_def truthy_def)
  have e: "list_all truthy (map ex_env (credential_variables @ table_variables)) \<and>
           ex_env ''DB_PORT'' = None \<and> ex_env ''DB_SSL_MODE'' = None"
    by (simp add: ex_env_def credential_variables_def table_variables_def truthy_def)
  have p: "\<lparr>host = ex_env ''DB_HOST'', port = ''5432'', database = ex_env ''DB_NAME'',
            user = ex_env ''DB_USER'', password = ex_env ''DB_PASSWORD'',
            sslmode = ''require'', connect_timeout = 10\<rparr> = ex_params"
    by (simp add: ex_env_def ex_params_def)
  from missing_configuration_halts[where env = blank_env and t_agent = 0 and t_property = 1 and d = ex_db_ok and ui = ex_picks and charts = ex_charts] b bc
  have 1: "snd (script 0 1 blank_env ex_db_ok ex_picks ex_charts) = Stop \<and>
      filter is_db_event (fst (script 0 1 blank_env ex_db_ok ex_picks ex_charts)) = [] \<and>
      list_all (\<lambda>v. names_variable v (fst (script 0 1 blank_env ex_db_ok ex_picks ex_charts)))
        credential_variables"
    by simp
  from missing_configuration_halts[where env = ex_env and t_agent = 0 and t_property = 1 and d = ex_db_ok and ui = ex_picks and charts = ex_charts] e
  have 2: "\<exists>rest. filter is_db_event (fst (script 0 1 ex_env ex_db_ok ex_picks ex_charts)) =
      Db_connect ex_params # rest"
    unfolding p by blast
  from b 1 e 2 show ?thesis by blast
qed

end
